theory Spec2Isabelle
  imports Main "HOL-Library.Char_ord" "HOL-Library.List_Lexorder" "HOL-Library.Product_Lexorder"
begin

section \<open>PacketHandler: consciousness packets, layered store, context reconstruction\<close>

text \<open>
  A shallow embedding of \<^verbatim>\<open>Pychat/lmchat/core/packethandler.py\<close>.

  \<^item> Python strings are \<open>string\<close>; only ASCII letters change case under \<open>lower\<close>.
  \<^item> JSON-like payloads are values of \<open>json\<close> (no floating point numbers); a dict is an
    association list in insertion order, with distinct keys.
  \<^item> A packet's \<^verbatim>\<open>metadata\<close> dict is a mutable object that the constructor updates in
    place and that \<^verbatim>\<open>to_dict\<close> hands out by reference, so it lives in an explicit heap
    and packets hold its address. Content and consent are never mutated by the module and
    are held by value.
  \<^item> Every exception is a value of \<open>error\<close>; a function that can raise returns
    \<open>error + 'a\<close>.
  \<^item> The system clock and the standard library (\<^verbatim>\<open>json\<close>, \<^verbatim>\<open>hashlib\<close>,
    \<^verbatim>\<open>datetime\<close>, \<^verbatim>\<open>str\<close>) are outside the module: clock readings are arguments, the
    library functions are the fields of a record \<open>lib\<close> that every operation takes.
\<close>

subsection \<open>Values\<close>

datatype json =
    JNull
  | JBool bool
  | JInt int
  | JStr string
  | JList "json list"
  | JObj "(string \<times> json) list"

type_synonym content = "(string \<times> json) list"

datatype PacketType = IDENTITY | SESSION | CONTEXT | HANDOVER | SYNC | CHECKPOINT

datatype PacketPriority = CRITICAL | HIGH | MEDIUM | LOW

fun PacketType_value :: "PacketType \<Rightarrow> string" where
  "PacketType_value IDENTITY = ''identity''"
| "PacketType_value SESSION = ''session''"
| "PacketType_value CONTEXT = ''context''"
| "PacketType_value HANDOVER = ''handover''"
| "PacketType_value SYNC = ''sync''"
| "PacketType_value CHECKPOINT = ''checkpoint''"

fun PacketPriority_value :: "PacketPriority \<Rightarrow> int" where
  "PacketPriority_value CRITICAL = 1"
| "PacketPriority_value HIGH = 2"
| "PacketPriority_value MEDIUM = 3"
| "PacketPriority_value LOW = 4"

text \<open>\<^verbatim>\<open>PacketType(v)\<close> and \<^verbatim>\<open>PacketPriority(v)\<close>: lookup by value, \<open>None\<close> for ValueError.\<close>

definition PacketType_of :: "string \<Rightarrow> PacketType option" where
  "PacketType_of v =
     (if v = ''identity'' then Some IDENTITY
      else if v = ''session'' then Some SESSION
      else if v = ''context'' then Some CONTEXT
      else if v = ''handover'' then Some HANDOVER
      else if v = ''sync'' then Some SYNC
      else if v = ''checkpoint'' then Some CHECKPOINT
      else None)"

definition PacketPriority_of :: "int \<Rightarrow> PacketPriority option" where
  "PacketPriority_of v =
     (if v = 1 then Some CRITICAL
      else if v = 2 then Some HIGH
      else if v = 3 then Some MEDIUM
      else if v = 4 then Some LOW
      else None)"

text \<open>
  The exceptions. \<^verbatim>\<open>PacketError\<close> is raised with five different messages, kept apart
  by \<open>reason\<close>; \<^verbatim>\<open>IntegrityError\<close> and \<^verbatim>\<open>ConsentError\<close> are its subclasses.
  \<open>KeyError\<close> and \<open>TypeError\<close> are the built-in exceptions that escape uncaught.
\<close>

datatype reason =
    InvalidJSON
  | UnsupportedFormat
  | InvalidHeader
  | ExceedsMaximumSize
  | FailedToPersist

datatype error =
    PacketError reason
  | IntegrityError
  | ConsentError
  | KeyError string
  | TypeError

subsection \<open>Consent, metadata, packets\<close>

record consent =
  public :: bool
  targets :: "string list"
  scopes :: "string list"
  expires_at :: "string option"

text \<open>A consent dict as a caller supplies it: every key may be missing.\<close>

record consent_arg =
  arg_public :: "bool option"
  arg_targets :: "string list option"
  arg_scopes :: "string list option"
  arg_expires_at :: "string option"

text \<open>
  A metadata dict: the four keys the constructor writes, the two that compression adds,
  and any other keys in \<open>extra\<close>. A key that is absent is \<open>None\<close>.
\<close>

record metadata =
  created :: "string option"
  version :: "string option"
  token_count :: "int option"
  checksum :: "string option"
  compressed :: "bool option"
  original_checksum :: "string option"
  extra :: "(string \<times> json) list"

definition empty_metadata :: metadata where
  "empty_metadata =
     \<lparr>created = None, version = None, token_count = None, checksum = None,
      compressed = None, original_checksum = None, extra = []\<rparr>"

text \<open>Truthiness of a dict: false exactly when it has no key.\<close>

definition is_empty_dict :: "metadata \<Rightarrow> bool" where
  "is_empty_dict m \<longleftrightarrow>
     created m = None \<and> version m = None \<and> token_count m = None \<and> checksum m = None \<and>
     compressed m = None \<and> original_checksum m = None \<and> extra m = []"

type_synonym addr = nat

record heap =
  cells :: "addr \<Rightarrow> metadata"
  next_addr :: addr

definition alloc :: "metadata \<Rightarrow> heap \<Rightarrow> addr \<times> heap" where
  "alloc m h = (next_addr h, \<lparr>cells = (cells h)(next_addr h := m), next_addr = Suc (next_addr h)\<rparr>)"

definition store_cell :: "addr \<Rightarrow> metadata \<Rightarrow> heap \<Rightarrow> heap" where
  "store_cell a m h = h\<lparr>cells := (cells h)(a := m)\<rparr>"

record packet =
  pid :: string
  ptype :: PacketType
  priority :: PacketPriority
  content :: content
  consent :: consent
  meta :: addr

text \<open>
  The dict form of a packet (\<^verbatim>\<open>to_dict\<close>, the argument of \<^verbatim>\<open>from_dict\<close>). The metadata
  is an address when the dict holds a live object and a value when it was just parsed
  from text.
\<close>

record 'm packet_dict =
  d_id :: "string option"
  d_type :: "string option"
  d_priority :: "int option"
  d_consent :: "consent_arg option"
  d_content :: "content option"
  d_metadata :: "'m option"

text \<open>What \<^verbatim>\<open>json.loads\<close> returns: a dict, or some other JSON value.\<close>

datatype loaded = LoadedDict "metadata packet_dict" | LoadedOther

text \<open>A \<^verbatim>\<open>datetime\<close>: microseconds since the epoch, with or without a UTC offset.\<close>

datatype datetime = Naive int | Aware int

record lib =
  json_dumps :: "json \<Rightarrow> string"
  json_dumps_sorted :: "json \<Rightarrow> string"
  json_dumps_indent :: "metadata packet_dict \<Rightarrow> string"
  json_loads :: "string \<Rightarrow> loaded option"
  sha256_hexdigest :: "string \<Rightarrow> string"
  md5_hexdigest :: "string \<Rightarrow> string"
  str_of :: "json \<Rightarrow> string"
  fromisoformat :: "string \<Rightarrow> datetime option"

text \<open>The clock readings of one constructor call: \<^verbatim>\<open>str(time.time_ns())\<close>, \<^verbatim>\<open>_now_iso()\<close>.\<close>

record tick =
  time_ns :: string
  now_iso :: string

subsection \<open>ConsciousnessPacket\<close>

definition generate_id :: "lib \<Rightarrow> string \<Rightarrow> string" where
  "generate_id L timestamp = ''cp_'' @ timestamp @ ''_'' @ take 8 (md5_hexdigest L timestamp)"

definition estimate_tokens :: "lib \<Rightarrow> content \<Rightarrow> int" where
  "estimate_tokens L c = int (length (json_dumps L (JObj c))) div 4"

definition calculate_checksum :: "lib \<Rightarrow> content \<Rightarrow> string" where
  "calculate_checksum L c = take 16 (sha256_hexdigest L (json_dumps_sorted L (JObj c)))"

definition default_consent :: consent where
  "default_consent = \<lparr>public = False, targets = [], scopes = [''read''], expires_at = None\<rparr>"

definition consent_of_arg :: "consent_arg option \<Rightarrow> consent" where
  "consent_of_arg arg =
     (case arg of
        None \<Rightarrow> default_consent
      | Some c \<Rightarrow>
          \<lparr>public = (case arg_public c of None \<Rightarrow> False | Some b \<Rightarrow> b),
           targets = (case arg_targets c of None \<Rightarrow> [] | Some ts \<Rightarrow> ts),
           scopes = (case arg_scopes c of None \<Rightarrow> [''read''] | Some ss \<Rightarrow> ss),
           expires_at = arg_expires_at c\<rparr>)"

definition arg_of_consent :: "consent \<Rightarrow> consent_arg" where
  "arg_of_consent c =
     \<lparr>arg_public = Some (public c), arg_targets = Some (targets c),
      arg_scopes = Some (scopes c), arg_expires_at = expires_at c\<rparr>"

text \<open>
  \<^verbatim>\<open>__init__\<close>. \<^verbatim>\<open>self.metadata = metadata or {}\<close> keeps the caller's dict object when it
  is non-empty and makes a new one otherwise; \<^verbatim>\<open>self.metadata.update(...)\<close> then writes
  the four keys into that object.
\<close>

definition init_packet ::
  "lib \<Rightarrow> tick \<Rightarrow> PacketType \<Rightarrow> content \<Rightarrow> PacketPriority \<Rightarrow> addr option \<Rightarrow>
   consent_arg option \<Rightarrow> heap \<Rightarrow> packet \<times> heap" where
  "init_packet L tk packet_type c prio md cs h =
     (let (a, h1) =
            (case md of
               None \<Rightarrow> alloc empty_metadata h
             | Some a0 \<Rightarrow> if is_empty_dict (cells h a0) then alloc empty_metadata h else (a0, h));
          m = (cells h1 a)
                \<lparr>created := Some (now_iso tk),
                 version := Some ''2.3.0'',
                 token_count := Some (estimate_tokens L c),
                 checksum := Some (calculate_checksum L c)\<rparr>
      in (\<lparr>pid = generate_id L (time_ns tk), ptype = packet_type, priority = prio,
           content = c, consent = consent_of_arg cs, meta = a\<rparr>,
          store_cell a m h1))"

definition to_dict :: "packet \<Rightarrow> addr packet_dict" where
  "to_dict p =
     \<lparr>d_id = Some (pid p),
      d_type = Some (PacketType_value (ptype p)),
      d_priority = Some (PacketPriority_value (priority p)),
      d_consent = Some (arg_of_consent (consent p)),
      d_content = Some (content p),
      d_metadata = Some (meta p)\<rparr>"

definition to_json :: "lib \<Rightarrow> heap \<Rightarrow> packet \<Rightarrow> string" where
  "to_json L h p =
     json_dumps_indent L
       \<lparr>d_id = Some (pid p),
        d_type = Some (PacketType_value (ptype p)),
        d_priority = Some (PacketPriority_value (priority p)),
        d_consent = Some (arg_of_consent (consent p)),
        d_content = Some (content p),
        d_metadata = Some (cells h (meta p))\<rparr>"

text \<open>
  \<^verbatim>\<open>from_dict\<close>. A missing or unknown \<^verbatim>\<open>type\<close> or \<^verbatim>\<open>priority\<close> is a PacketError; a
  missing \<^verbatim>\<open>content\<close> is read outside the \<^verbatim>\<open>try\<close> and escapes as KeyError.
\<close>

definition from_dict :: "lib \<Rightarrow> tick \<Rightarrow> addr packet_dict \<Rightarrow> heap \<Rightarrow> (error + packet) \<times> heap" where
  "from_dict L tk d h =
     (case (case d_type d of None \<Rightarrow> None | Some v \<Rightarrow> PacketType_of v) of
        None \<Rightarrow> (Inl (PacketError InvalidHeader), h)
      | Some packet_type \<Rightarrow>
          (case (case d_priority d of None \<Rightarrow> None | Some v \<Rightarrow> PacketPriority_of v) of
             None \<Rightarrow> (Inl (PacketError InvalidHeader), h)
           | Some prio \<Rightarrow>
               (case d_content d of
                  None \<Rightarrow> (Inl (KeyError ''content''), h)
                | Some c \<Rightarrow>
                    (let (p, h1) = init_packet L tk packet_type c prio (d_metadata d) (d_consent d) h
                     in (Inr (p\<lparr>pid := (case d_id d of None \<Rightarrow> pid p | Some i \<Rightarrow> i)\<rparr>), h1)))))"

definition verify_integrity :: "lib \<Rightarrow> heap \<Rightarrow> packet \<Rightarrow> bool" where
  "verify_integrity L h p \<longleftrightarrow>
     checksum (cells h (meta p)) = Some (calculate_checksum L (content p))"

text \<open>
  \<^verbatim>\<open>is_expired\<close>, with \<open>now\<close> the reading of \<^verbatim>\<open>datetime.now(timezone.utc)\<close>. An empty
  string is falsy; a string that does not parse raises ValueError; comparing a datetime
  without offset with the offset-aware \<open>now\<close> raises TypeError. Both are caught.
\<close>

definition is_expired :: "lib \<Rightarrow> int \<Rightarrow> packet \<Rightarrow> bool" where
  "is_expired L now p =
     (case expires_at (consent p) of
        None \<Rightarrow> False
      | Some s \<Rightarrow>
          if s = [] then False
          else (case fromisoformat L s of
                  None \<Rightarrow> False
                | Some (Naive t) \<Rightarrow> False
                | Some (Aware t) \<Rightarrow> t < now))"

subsection \<open>PacketHandler\<close>

definition MAX_BUFFER_SIZE :: nat where
  "MAX_BUFFER_SIZE = 200"

record handler =
  max_packet_size :: int
  compression_threshold :: int
  incoming_buffer :: "packet list"
  outgoing_buffer :: "packet list"
  identity_layer :: "packet option"
  context_layers :: "packet list"
  session_memory :: "packet list"

definition new_handler :: "int \<Rightarrow> int \<Rightarrow> handler" where
  "new_handler mps thr =
     \<lparr>max_packet_size = mps, compression_threshold = thr,
      incoming_buffer = [], outgoing_buffer = [],
      identity_layer = None, context_layers = [], session_memory = []\<rparr>"

text \<open>The slice \<^verbatim>\<open>xs[-n:]\<close> for positive \<open>n\<close>.\<close>

definition last_n :: "nat \<Rightarrow> 'a list \<Rightarrow> 'a list" where
  "last_n n xs = drop (length xs - n) xs"

definition prune_buffers :: "handler \<Rightarrow> handler" where
  "prune_buffers s =
     (let s1 = (if length (incoming_buffer s) > MAX_BUFFER_SIZE
                then s\<lparr>incoming_buffer := last_n MAX_BUFFER_SIZE (incoming_buffer s)\<rparr> else s)
      in if length (outgoing_buffer s1) > MAX_BUFFER_SIZE
         then s1\<lparr>outgoing_buffer := last_n MAX_BUFFER_SIZE (outgoing_buffer s1)\<rparr> else s1)"

definition route_packet :: "packet \<Rightarrow> handler \<Rightarrow> handler" where
  "route_packet p s =
     (if ptype p = IDENTITY then s\<lparr>identity_layer := Some p\<rparr>
      else if ptype p = SESSION then
        (let sm = session_memory s @ [p]
         in s\<lparr>session_memory := (if length sm > 10 then last_n 10 sm else sm)\<rparr>)
      else if ptype p = CONTEXT then
        (let cl = context_layers s @ [p]
         in s\<lparr>context_layers := (if length cl > 20 then last_n 20 cl else cl)\<rparr>)
      else s)"

definition summarize_content :: "lib \<Rightarrow> content \<Rightarrow> string" where
  "summarize_content L c =
     (let text = json_dumps L (JObj c)
      in if length text > 200 then take 200 text @ ''...'' else text)"

text \<open>The first five keys, each with the first 50 characters of \<^verbatim>\<open>str\<close> of its value.\<close>

definition extract_key_points :: "lib \<Rightarrow> content \<Rightarrow> string list" where
  "extract_key_points L c = map (\<lambda>(k, v). k @ '': '' @ take 50 (str_of L v)) (take 5 c)"

text \<open>
  \<^verbatim>\<open>_compress_packet\<close>. The new packet is built on a copy of the metadata dict, so the
  constructor's update does not touch the original's.
\<close>

definition compress_packet :: "lib \<Rightarrow> tick \<Rightarrow> packet \<Rightarrow> heap \<Rightarrow> (error + packet) \<times> heap" where
  "compress_packet L tk p h =
     (case checksum (cells h (meta p)) of
        None \<Rightarrow> (Inl (KeyError ''checksum''), h)
      | Some ck \<Rightarrow>
          (case token_count (cells h (meta p)) of
             None \<Rightarrow> (Inl (KeyError ''token_count''), h)
           | Some n \<Rightarrow>
               (let compressed_content =
                      [(''compressed'', JBool True),
                       (''original_id'', JStr (pid p)),
                       (''original_checksum'', JStr ck),
                       (''original_size'', JInt n),
                       (''summary'', JStr (summarize_content L (content p))),
                       (''key_points'', JList (map JStr (extract_key_points L (content p))))];
                    (a, h1) = alloc (cells h (meta p)) h;
                    (cp, h2) = init_packet L tk (ptype p) compressed_content (priority p)
                                 (Some a) (Some (arg_of_consent (consent p))) h1;
                    m = (cells h2 (meta cp))\<lparr>compressed := Some True, original_checksum := Some ck\<rparr>
                in (Inr cp, store_cell (meta cp) m h2))))"

definition priority_map :: "PacketType \<Rightarrow> PacketPriority" where
  "priority_map t =
     (case t of
        IDENTITY \<Rightarrow> CRITICAL
      | HANDOVER \<Rightarrow> HIGH
      | SESSION \<Rightarrow> MEDIUM
      | CONTEXT \<Rightarrow> MEDIUM
      | SYNC \<Rightarrow> LOW
      | CHECKPOINT \<Rightarrow> HIGH)"

text \<open>
  \<^verbatim>\<open>create_packet\<close>. \<open>tk\<close> is read by the constructor, \<open>tk2\<close> by the second constructor
  call when the packet is compressed.
\<close>

definition create_packet ::
  "lib \<Rightarrow> tick \<Rightarrow> tick \<Rightarrow> handler \<Rightarrow> PacketType \<Rightarrow> content \<Rightarrow> PacketPriority option \<Rightarrow>
   consent_arg option \<Rightarrow> heap \<Rightarrow> (error + packet) \<times> heap" where
  "create_packet L tk tk2 s packet_type c prio cs h =
     (let pr = (case prio of None \<Rightarrow> priority_map packet_type | Some q \<Rightarrow> q);
          (p, h1) = init_packet L tk packet_type c pr None cs h
      in case token_count (cells h1 (meta p)) of
           None \<Rightarrow> (Inl (KeyError ''token_count''), h1)
         | Some n \<Rightarrow>
             if n > max_packet_size s then (Inl (PacketError ExceedsMaximumSize), h1)
             else if n > compression_threshold s then compress_packet L tk2 p h1
             else (Inr p, h1))"

text \<open>What \<^verbatim>\<open>receive_packet\<close> is given: text, a dict, or anything else.\<close>

datatype raw = RawText string | RawDict "addr packet_dict" | RawOther

text \<open>The dict parsed from text is made of new objects: its metadata gets a new address.\<close>

definition parse_input :: "lib \<Rightarrow> raw \<Rightarrow> heap \<Rightarrow> (error + addr packet_dict) \<times> heap" where
  "parse_input L packet_data h =
     (case packet_data of
        RawText txt \<Rightarrow>
          (case json_loads L txt of
             None \<Rightarrow> (Inl (PacketError InvalidJSON), h)
           | Some LoadedOther \<Rightarrow> (Inl TypeError, h)
           | Some (LoadedDict d) \<Rightarrow>
               (case d_metadata d of
                  None \<Rightarrow>
                    (Inr \<lparr>d_id = d_id d, d_type = d_type d, d_priority = d_priority d,
                          d_consent = d_consent d, d_content = d_content d,
                          d_metadata = None\<rparr>, h)
                | Some m \<Rightarrow>
                    (let (a, h1) = alloc m h
                     in (Inr \<lparr>d_id = d_id d, d_type = d_type d, d_priority = d_priority d,
                              d_consent = d_consent d, d_content = d_content d,
                              d_metadata = Some a\<rparr>, h1))))
      | RawDict d \<Rightarrow> (Inr d, h)
      | RawOther \<Rightarrow> (Inl (PacketError UnsupportedFormat), h))"

text \<open>
  \<^verbatim>\<open>receive_packet\<close>: \<open>tk\<close> is the constructor's clock reading inside \<^verbatim>\<open>from_dict\<close>,
  \<open>now\<close> the one of \<^verbatim>\<open>is_expired\<close>.
\<close>

definition receive_packet ::
  "lib \<Rightarrow> tick \<Rightarrow> int \<Rightarrow> raw \<Rightarrow> handler \<times> heap \<Rightarrow> (error + packet) \<times> handler \<times> heap" where
  "receive_packet L tk now packet_data w =
     (let (s, h) = w in
      case parse_input L packet_data h of
        (Inl e, h0) \<Rightarrow> (Inl e, s, h0)
      | (Inr d, h0) \<Rightarrow>
          (case from_dict L tk d h0 of
             (Inl e, h1) \<Rightarrow> (Inl e, s, h1)
           | (Inr p, h1) \<Rightarrow>
               if \<not> verify_integrity L h1 p then (Inl IntegrityError, s, h1)
               else if is_expired L now p then (Inl ConsentError, s, h1)
               else (Inr p,
                     route_packet p (prune_buffers (s\<lparr>incoming_buffer := incoming_buffer s @ [p]\<rparr>)),
                     h1)))"

text \<open>
  \<^verbatim>\<open>emit_packet\<close>. Writing the file is outside the model: \<open>persisted\<close> says whether
  \<^verbatim>\<open>_persist_packet\<close> returned or raised.
\<close>

definition emit_packet ::
  "lib \<Rightarrow> bool \<Rightarrow> packet \<Rightarrow> handler \<times> heap \<Rightarrow> (error + string) \<times> handler \<times> heap" where
  "emit_packet L persisted p w =
     (let (s, h) = w;
          s1 = prune_buffers (s\<lparr>outgoing_buffer := outgoing_buffer s @ [p]\<rparr>)
      in if persisted then (Inr (to_json L h p), s1, h)
         else (Inl (PacketError FailedToPersist), s1, h))"

subsection \<open>Consent\<close>

definition lower_char :: "char \<Rightarrow> char" where
  "lower_char c =
     (case map_of (zip ''ABCDEFGHIJKLMNOPQRSTUVWXYZ'' ''abcdefghijklmnopqrstuvwxyz'') c of
        None \<Rightarrow> c
      | Some d \<Rightarrow> d)"

definition lower :: "string \<Rightarrow> string" where
  "lower s = map lower_char s"

text \<open>Truthiness of an optional string: \<^verbatim>\<open>None\<close> and the empty string are falsy.\<close>

definition truthy :: "string option \<Rightarrow> bool" where
  "truthy scope = (case scope of None \<Rightarrow> False | Some s \<Rightarrow> s \<noteq> [])"

definition scope_test :: "packet \<Rightarrow> string option \<Rightarrow> bool" where
  "scope_test p scope =
     (if truthy scope then (case scope of None \<Rightarrow> True | Some s \<Rightarrow> s \<in> set (scopes (consent p)))
      else True)"

text \<open>The loop over the targets; \<^verbatim>\<open>target.split(":", 1)\<close> cuts at the first colon.\<close>

fun scan_targets :: "packet \<Rightarrow> string \<Rightarrow> string option \<Rightarrow> string list \<Rightarrow> bool" where
  "scan_targets p recipient_lower scope [] = False"
| "scan_targets p recipient_lower scope (target # rest) =
     (if CHR '':'' \<in> set target then
        (let target_name = takeWhile (\<lambda>c. c \<noteq> CHR '':'') target;
             target_id = tl (dropWhile (\<lambda>c. c \<noteq> CHR '':'') target)
         in if recipient_lower = lower target_name \<or> recipient_lower = lower target_id
            then scope_test p scope
            else scan_targets p recipient_lower scope rest)
      else if recipient_lower = lower target then scope_test p scope
      else scan_targets p recipient_lower scope rest)"

definition can_share_with :: "lib \<Rightarrow> int \<Rightarrow> packet \<Rightarrow> string \<Rightarrow> string option \<Rightarrow> bool" where
  "can_share_with L now p recipient scope =
     (if is_expired L now p then False
      else if public (consent p) then scope_test p scope
      else scan_targets p (lower recipient) scope (targets (consent p)))"

subsection \<open>Context reconstruction\<close>

record layer =
  layer_type :: string
  layer_content :: content
  tokens :: int

record reconstruction =
  timestamp :: string
  layers :: "layer list"
  handler_version :: string
  total_tokens :: int
  remaining_tokens :: int

definition type_label :: "packet \<Rightarrow> string" where
  "type_label p =
     (if ptype p = SESSION then ''session''
      else if ptype p = CONTEXT then ''context''
      else PacketType_value (ptype p))"

text \<open>The sort key \<^verbatim>\<open>(x.priority.value, x.metadata.get("created", ""))\<close>.\<close>

definition sort_key_of :: "heap \<Rightarrow> packet \<Rightarrow> int \<times> string" where
  "sort_key_of h x =
     (PacketPriority_value (priority x),
      (case created (cells h (meta x)) of None \<Rightarrow> [] | Some c \<Rightarrow> c))"

text \<open>
  The loop of \<^verbatim>\<open>_select_packets_by_priority\<close>: a packet that fits is picked and paid
  for; after each packet, picked or not, the loop ends when fewer than 100 tokens remain.
\<close>

fun select_loop :: "heap \<Rightarrow> packet list \<Rightarrow> int \<Rightarrow> (string \<times> packet) list" where
  "select_loop h [] budget = []"
| "select_loop h (p # ps) budget =
     (let n = (case token_count (cells h (meta p)) of None \<Rightarrow> 0 | Some k \<Rightarrow> k)
      in if n \<le> budget
         then (type_label p, p) # (if budget - n < 100 then [] else select_loop h ps (budget - n))
         else (if budget < 100 then [] else select_loop h ps budget))"

definition select_packets_by_priority ::
  "heap \<Rightarrow> packet list \<Rightarrow> int \<Rightarrow> (string \<times> packet) list" where
  "select_packets_by_priority h pool budget = select_loop h (sort_key (sort_key_of h) pool) budget"

text \<open>
  The second loop of \<^verbatim>\<open>reconstruct_context\<close> reads \<^verbatim>\<open>packet.metadata["token_count"]\<close>,
  which raises KeyError when the key is absent.
\<close>

fun selected_layers :: "heap \<Rightarrow> (string \<times> packet) list \<Rightarrow> error + layer list" where
  "selected_layers h [] = Inr []"
| "selected_layers h ((label, p) # rest) =
     (case token_count (cells h (meta p)) of
        None \<Rightarrow> Inl (KeyError ''token_count'')
      | Some n \<Rightarrow>
          (case selected_layers h rest of
             Inl e \<Rightarrow> Inl e
           | Inr ls \<Rightarrow> Inr (\<lparr>layer_type = label, layer_content = content p, tokens = n\<rparr> # ls)))"

text \<open>Step 1 of \<^verbatim>\<open>reconstruct_context\<close>: the identity layer and what is left of the budget.\<close>

definition identity_step :: "heap \<Rightarrow> handler \<Rightarrow> int \<Rightarrow> bool \<Rightarrow> error + layer list \<times> int" where
  "identity_step h s token_budget include_identity =
     (case (if include_identity then identity_layer s else None) of
        None \<Rightarrow> Inr ([], token_budget)
      | Some ip \<Rightarrow>
          (case token_count (cells h (meta ip)) of
             None \<Rightarrow> Inl (KeyError ''token_count'')
           | Some identity_tokens \<Rightarrow>
               if identity_tokens \<le> token_budget
               then Inr ([\<lparr>layer_type = ''identity'', layer_content = content ip,
                           tokens = identity_tokens\<rparr>],
                         token_budget - identity_tokens)
               else Inr ([], token_budget)))"

definition reconstruct_context ::
  "string \<Rightarrow> int \<Rightarrow> bool \<Rightarrow> handler \<times> heap \<Rightarrow> error + reconstruction" where
  "reconstruct_context ts token_budget include_identity w =
     (let (s, h) = w in
      case identity_step h s token_budget include_identity of
        Inl e \<Rightarrow> Inl e
      | Inr (first, remaining) \<Rightarrow>
          (let all_packets = session_memory s @ context_layers s;
               selected = select_packets_by_priority h all_packets remaining
           in case selected_layers h selected of
                Inl e \<Rightarrow> Inl e
              | Inr ls \<Rightarrow>
                  (let remaining_after = remaining - sum_list (map tokens ls)
                   in Inr \<lparr>timestamp = ts, layers = first @ ls, handler_version = ''2.3.0'',
                           total_tokens = token_budget - remaining_after,
                           remaining_tokens = remaining_after\<rparr>)))"

subsection \<open>Sequences of operations\<close>

text \<open>
  A caller's use of one handler: a sequence of \<^verbatim>\<open>receive_packet\<close> and \<^verbatim>\<open>emit_packet\<close>
  calls. A call that raises leaves the state it had reached. \<open>received\<close> and \<open>emitted\<close>
  are the packets a call adds to the incoming and to the outgoing buffer.
\<close>

datatype operation = Receive tick int raw | Emit bool packet

definition step :: "lib \<Rightarrow> operation \<Rightarrow> handler \<times> heap \<Rightarrow> handler \<times> heap" where
  "step L x w =
     (case x of
        Receive tk now packet_data \<Rightarrow> snd (receive_packet L tk now packet_data w)
      | Emit persisted p \<Rightarrow> snd (emit_packet L persisted p w))"

definition received :: "lib \<Rightarrow> operation \<Rightarrow> handler \<times> heap \<Rightarrow> packet list" where
  "received L x w =
     (case x of
        Receive tk now packet_data \<Rightarrow>
          (case fst (receive_packet L tk now packet_data w) of Inl e \<Rightarrow> [] | Inr p \<Rightarrow> [p])
      | Emit persisted p \<Rightarrow> [])"

definition emitted :: "operation \<Rightarrow> packet list" where
  "emitted x = (case x of Receive tk now packet_data \<Rightarrow> [] | Emit persisted p \<Rightarrow> [p])"

fun run :: "lib \<Rightarrow> operation list \<Rightarrow> handler \<times> heap \<Rightarrow> handler \<times> heap" where
  "run L [] w = w"
| "run L (x # xs) w = run L xs (step L x w)"

fun received_log :: "lib \<Rightarrow> operation list \<Rightarrow> handler \<times> heap \<Rightarrow> packet list" where
  "received_log L [] w = []"
| "received_log L (x # xs) w = received L x w @ received_log L xs (step L x w)"

definition emitted_log :: "operation list \<Rightarrow> packet list" where
  "emitted_log xs = concat (map emitted xs)"

text \<open>The last packet of a given type in a log, if any.\<close>

definition last_of_type :: "PacketType \<Rightarrow> packet list \<Rightarrow> packet option" where
  "last_of_type t ps =
     (case filter (\<lambda>p. ptype p = t) ps of [] \<Rightarrow> None | q # qs \<Rightarrow> Some (last (q # qs)))"

subsection \<open>The specification's wording of the consent rules\<close>

text \<open>
  A target matches a recipient when, compared in lower case, the recipient equals the
  bare name, or either half of a \<open>name:id\<close> entry.
\<close>

definition target_matches :: "string \<Rightarrow> string \<Rightarrow> bool" where
  "target_matches recipient target =
     (if CHR '':'' \<in> set target
      then lower recipient = lower (takeWhile (\<lambda>c. c \<noteq> CHR '':'') target) \<or>
           lower recipient = lower (tl (dropWhile (\<lambda>c. c \<noteq> CHR '':'') target))
      else lower recipient = lower target)"

text \<open>The scope test: no scope asked for (none, or the empty string), or one of the packet's scopes.\<close>

definition scope_granted :: "packet \<Rightarrow> string option \<Rightarrow> bool" where
  "scope_granted p scope =
     (case scope of None \<Rightarrow> True | Some s \<Rightarrow> s = [] \<or> s \<in> set (scopes (consent p)))"

text \<open>The layer that \<^verbatim>\<open>reconstruct_context\<close> builds for a selected packet.\<close>

definition layer_of :: "heap \<Rightarrow> packet \<Rightarrow> layer" where
  "layer_of h p =
     \<lparr>layer_type = type_label p, layer_content = content p,
      tokens = (case token_count (cells h (meta p)) of None \<Rightarrow> 0 | Some n \<Rightarrow> n)\<rparr>"

text \<open>Every packet of the three tiers carries a token count, as the constructor writes it.\<close>

definition tiers_counted :: "heap \<Rightarrow> handler \<Rightarrow> bool" where
  "tiers_counted h s \<longleftrightarrow>
     list_all (\<lambda>p. token_count (cells h (meta p)) \<noteq> None)
       (session_memory s @ context_layers s @ (case identity_layer s of None \<Rightarrow> [] | Some p \<Rightarrow> [p]))"

text \<open>The bounds of the two buffers and the two list tiers.\<close>

definition bounded :: "handler \<Rightarrow> bool" where
  "bounded s \<longleftrightarrow>
     length (incoming_buffer s) \<le> MAX_BUFFER_SIZE \<and> length (outgoing_buffer s) \<le> MAX_BUFFER_SIZE \<and>
     length (session_memory s) \<le> 10 \<and> length (context_layers s) \<le> 20"

text \<open>
  The order of the specification: a lower priority value first, and among equal
  priorities the earlier \<open>created\<close> string first.
\<close>

definition precedes :: "heap \<Rightarrow> packet \<Rightarrow> packet \<Rightarrow> bool" where
  "precedes h p q \<longleftrightarrow>
     PacketPriority_value (priority p) < PacketPriority_value (priority q) \<or>
     (PacketPriority_value (priority p) = PacketPriority_value (priority q) \<and>
      (case created (cells h (meta p)) of None \<Rightarrow> [] | Some c \<Rightarrow> c) \<le>
      (case created (cells h (meta q)) of None \<Rightarrow> [] | Some c \<Rightarrow> c))"

text \<open>
  Reachable stores. The packets of the three tiers; a packet whose metadata is an
  allocated object with a token count; a sequence of calls whose dict arguments hold
  allocated metadata objects.
\<close>

definition tiers :: "handler \<Rightarrow> packet list" where
  "tiers s = session_memory s @ context_layers s @ (case identity_layer s of None \<Rightarrow> [] | Some p \<Rightarrow> [p])"

definition counted_at :: "heap \<Rightarrow> packet \<Rightarrow> bool" where
  "counted_at h p \<longleftrightarrow> meta p < next_addr h \<and> token_count (cells h (meta p)) \<noteq> None"

definition well_formed :: "handler \<times> heap \<Rightarrow> bool" where
  "well_formed w \<longleftrightarrow> list_all (counted_at (snd w)) (tiers (fst w))"

definition allocated_input :: "heap \<Rightarrow> operation \<Rightarrow> bool" where
  "allocated_input h x =
     (case x of
        Receive tk now (RawDict d) \<Rightarrow> (case d_metadata d of None \<Rightarrow> True | Some a \<Rightarrow> a < next_addr h)
      | _ \<Rightarrow> True)"

fun allocated_inputs :: "lib \<Rightarrow> operation list \<Rightarrow> handler \<times> heap \<Rightarrow> bool" where
  "allocated_inputs L [] w = True"
| "allocated_inputs L (x # xs) w = (allocated_input (snd w) x \<and> allocated_inputs L xs (step L x w))"

subsection \<open>A library instance and sample inputs\<close>

text \<open>
  Concrete inputs need concrete library functions. \<open>sample_dumps\<close> renders the JSON
  values used below as \<^verbatim>\<open>json.dumps\<close> does (strings without characters to escape);
  the digests are stand-ins that pad or cut the text to the digest's length; the
  timestamp parser knows three strings.
\<close>

fun digits :: "nat \<Rightarrow> string" where
  "digits n =
     (if n < 10 then [''0123456789'' ! n]
      else digits (n div 10) @ [''0123456789'' ! (n mod 10)])"

fun join :: "string \<Rightarrow> string list \<Rightarrow> string" where
  "join sep [] = []"
| "join sep [x] = x"
| "join sep (x # y # ys) = x @ sep @ join sep (y # ys)"

fun sample_dumps :: "json \<Rightarrow> string" where
  "sample_dumps JNull = ''null''"
| "sample_dumps (JBool b) = (if b then ''true'' else ''false'')"
| "sample_dumps (JInt i) = (if i < 0 then ''-'' @ digits (nat (- i)) else digits (nat i))"
| "sample_dumps (JStr s) = [CHR 0x22] @ s @ [CHR 0x22]"
| "sample_dumps (JList xs) = ''['' @ join '', '' (map sample_dumps xs) @ '']''"
| "sample_dumps (JObj kvs) =
     ''{'' @ join '', '' (map (\<lambda>(k, v). [CHR 0x22] @ k @ [CHR 0x22] @ '': '' @ sample_dumps v) kvs) @ ''}''"

definition sample_fromisoformat :: "string \<Rightarrow> datetime option" where
  "sample_fromisoformat s =
     (if s = ''2000-01-01T00:00:00+00:00'' then Some (Aware 946684800000000)
      else if s = ''2000-01-01T00:00:00'' then Some (Naive 946684800000000)
      else if s = ''2100-01-01T00:00:00+00:00'' then Some (Aware 4102444800000000)
      else None)"

definition sample_lib :: lib where
  "sample_lib =
     \<lparr>json_dumps = sample_dumps,
      json_dumps_sorted = sample_dumps,
      json_dumps_indent = (\<lambda>d. []),
      json_loads = (\<lambda>txt. None),
      sha256_hexdigest = (\<lambda>txt. take 64 (txt @ replicate 64 (CHR ''0''))),
      md5_hexdigest = (\<lambda>txt. take 32 (txt @ replicate 32 (CHR ''0''))),
      str_of = sample_dumps,
      fromisoformat = sample_fromisoformat\<rparr>"

text \<open>The current time of the samples: 2023-11-14T22:13:20 UTC.\<close>

definition sample_now :: int where
  "sample_now = 1700000000000000"

definition tick1 :: tick where
  "tick1 = \<lparr>time_ns = ''1700000000000000001'', now_iso = ''2023-11-14T22:13:20.000001+00:00''\<rparr>"

definition tick2 :: tick where
  "tick2 = \<lparr>time_ns = ''1700000000000000002'', now_iso = ''2023-11-14T22:13:20.000002+00:00''\<rparr>"

definition empty_heap :: heap where
  "empty_heap = \<lparr>cells = (\<lambda>a. empty_metadata), next_addr = 0\<rparr>"

text \<open>A packet with a given consent, for the samples of the consent rules.\<close>

definition consent_packet :: "consent \<Rightarrow> packet" where
  "consent_packet c =
     \<lparr>pid = ''cp_1700000000000000001_17000000'', ptype = CONTEXT, priority = MEDIUM,
      content = [], consent = c, meta = 0\<rparr>"

definition expiring :: "string option \<Rightarrow> consent" where
  "expiring e = \<lparr>public = True, targets = [], scopes = [''read'', ''quote''], expires_at = e\<rparr>"

definition private_consent :: consent where
  "private_consent =
     \<lparr>public = False, targets = [''Claude'', ''Grok'', ''Ziggy:user123''],
      scopes = [''read'', ''write''], expires_at = None\<rparr>"

text \<open>
  A dict whose metadata object (at address 0) carries values that do not belong to its
  content, and the packet that \<^verbatim>\<open>from_dict\<close> makes of it.
\<close>

definition tampered_heap :: heap where
  "tampered_heap =
     \<lparr>cells = (\<lambda>a. empty_metadata)
        (0 := \<lparr>created = Some ''2020-01-01T00:00:00+00:00'', version = Some ''1.0.0'',
               token_count = Some 999, checksum = Some ''deadbeefdeadbeef'',
               compressed = None, original_checksum = None, extra = []\<rparr>),
      next_addr = 1\<rparr>"

definition tampered_dict :: "addr packet_dict" where
  "tampered_dict =
     \<lparr>d_id = Some ''cp_42_abcdef01'', d_type = Some ''context'', d_priority = Some 3,
      d_consent = None, d_content = Some [(''note'', JStr ''hi'')], d_metadata = Some 0\<rparr>"

definition tampered_packet :: packet where
  "tampered_packet =
     \<lparr>pid = ''cp_42_abcdef01'', ptype = CONTEXT, priority = MEDIUM,
      content = [(''note'', JStr ''hi'')], consent = default_consent, meta = 0\<rparr>"

text \<open>A dict is received, a call with an unsupported argument fails, a packet is emitted.\<close>

definition sample_operations :: "operation list" where
  "sample_operations =
     [Receive tick1 sample_now (RawDict tampered_dict),
      Receive tick2 sample_now RawOther,
      Emit False tampered_packet]"

text \<open>
  Two dicts that hold the same metadata object (address 0), as
  \<^verbatim>\<open>second = dict(first, ...)\<close> or a shared template gives them; the consent of the second
  has expired. \<open>world_before\<close> is the state after the first has been received.
\<close>

definition shared_heap :: heap where
  "shared_heap =
     \<lparr>cells = (\<lambda>a. empty_metadata)(0 := empty_metadata\<lparr>extra := [(''source'', JStr ''chat'')]\<rparr>),
      next_addr = 1\<rparr>"

definition first_dict :: "addr packet_dict" where
  "first_dict =
     \<lparr>d_id = Some ''cp_1_aaaaaaaa'', d_type = Some ''session'', d_priority = Some 3,
      d_consent = None, d_content = Some [(''note'', JStr ''hi'')], d_metadata = Some 0\<rparr>"

definition second_dict :: "addr packet_dict" where
  "second_dict =
     \<lparr>d_id = Some ''cp_2_bbbbbbbb'', d_type = Some ''session'', d_priority = Some 3,
      d_consent = Some \<lparr>arg_public = None, arg_targets = None, arg_scopes = None,
                        arg_expires_at = Some ''2000-01-01T00:00:00+00:00''\<rparr>,
      d_content = Some [(''note'', JStr ''changed'')], d_metadata = Some 0\<rparr>"

definition stored_packet :: packet where
  "stored_packet =
     \<lparr>pid = ''cp_1_aaaaaaaa'', ptype = SESSION, priority = MEDIUM,
      content = [(''note'', JStr ''hi'')], consent = default_consent, meta = 0\<rparr>"

definition world_before :: "handler \<times> heap" where
  "world_before =
     snd (receive_packet sample_lib tick1 sample_now (RawDict first_dict)
            (new_handler 8000 4000, shared_heap))"

text \<open>
  An identity packet sent with the lowest priority and a session packet, received in
  this order by a new handler.
\<close>

definition identity_dict :: "addr packet_dict" where
  "identity_dict =
     \<lparr>d_id = Some ''cp_1_aaaaaaaa'', d_type = Some ''identity'', d_priority = Some 4,
      d_consent = None, d_content = Some [(''name'', JStr ''Ada'')], d_metadata = None\<rparr>"

definition session_dict :: "addr packet_dict" where
  "session_dict =
     \<lparr>d_id = Some ''cp_2_bbbbbbbb'', d_type = Some ''session'', d_priority = Some 3,
      d_consent = None, d_content = Some [(''note'', JStr ''hi'')], d_metadata = None\<rparr>"

definition identity_packet :: packet where
  "identity_packet =
     \<lparr>pid = ''cp_1_aaaaaaaa'', ptype = IDENTITY, priority = LOW,
      content = [(''name'', JStr ''Ada'')], consent = default_consent, meta = 0\<rparr>"

definition session_packet :: packet where
  "session_packet =
     \<lparr>pid = ''cp_2_bbbbbbbb'', ptype = SESSION, priority = MEDIUM,
      content = [(''note'', JStr ''hi'')], consent = default_consent, meta = 1\<rparr>"

definition two_tier_world :: "handler \<times> heap" where
  "two_tier_world =
     run sample_lib
       [Receive tick1 sample_now (RawDict identity_dict),
        Receive tick2 sample_now (RawDict session_dict)]
       (new_handler 8000 4000, empty_heap)"

section \<open>Properties\<close>

subsection \<open>Expiry of consent\<close>

text \<open>
  Claim C9, as amended. \<open>is_expired\<close> is false when \<open>expires_at\<close> is absent (or null, or the
  empty string), false when it does not parse, and false when it parses to a timestamp
  without UTC offset, which cannot be compared with the current UTC time; when it parses
  to a timestamp with an offset, \<open>is_expired\<close> is true exactly when that instant is before
  the current time.
\<close>

theorem is_expired_fail_open:
  "(expires_at (consent p) = None \<longrightarrow> \<not> is_expired L now p) \<and>
   (expires_at (consent p) = Some [] \<longrightarrow> \<not> is_expired L now p) \<and>
   (\<forall>s. expires_at (consent p) = Some s \<and> fromisoformat L s = None \<longrightarrow> \<not> is_expired L now p) \<and>
   (\<forall>s t. expires_at (consent p) = Some s \<and> fromisoformat L s = Some (Naive t) \<longrightarrow>
      \<not> is_expired L now p) \<and>
   (\<forall>s t. expires_at (consent p) = Some s \<and> s \<noteq> [] \<and> fromisoformat L s = Some (Aware t) \<longrightarrow>
      is_expired L now p = (t < now))"
  by (auto simp: is_expired_def)

theorem is_expired_fail_open_witness:
  "\<not> is_expired sample_lib sample_now (consent_packet (expiring None)) \<and>
   \<not> is_expired sample_lib sample_now (consent_packet (expiring (Some ''tomorrow''))) \<and>
   is_expired sample_lib sample_now (consent_packet (expiring (Some ''2000-01-01T00:00:00+00:00''))) \<and>
   \<not> is_expired sample_lib sample_now (consent_packet (expiring (Some ''2100-01-01T00:00:00+00:00'')))"
  using is_expired_fail_open [of "consent_packet (expiring None)" sample_lib sample_now]
    is_expired_fail_open [of "consent_packet (expiring (Some ''tomorrow''))" sample_lib sample_now]
    is_expired_fail_open [of "consent_packet (expiring (Some ''2000-01-01T00:00:00+00:00''))"
      sample_lib sample_now]
    is_expired_fail_open [of "consent_packet (expiring (Some ''2100-01-01T00:00:00+00:00''))"
      sample_lib sample_now]
  by (simp add: consent_packet_def expiring_def sample_lib_def sample_fromisoformat_def
      sample_now_def)

text \<open>
  The claim as stated fails for a timestamp without offset: it parses, the current time
  is past it, and the packet is not expired.
\<close>

theorem is_expired_naive_counterexample:
  "fromisoformat sample_lib ''2000-01-01T00:00:00'' = Some (Naive 946684800000000) \<and>
   946684800000000 < sample_now \<and>
   \<not> is_expired sample_lib sample_now (consent_packet (expiring (Some ''2000-01-01T00:00:00'')))"
  by (simp add: is_expired_def consent_packet_def expiring_def sample_lib_def
      sample_fromisoformat_def sample_now_def)

subsection \<open>Disclosure\<close>

lemma scope_test_granted: "scope_test p scope = scope_granted p scope"
  by (auto simp: scope_test_def scope_granted_def truthy_def split: option.splits)

lemma scan_targets_Cons:
  "scan_targets p (lower recipient) scope (t # ts) =
     (if target_matches recipient t then scope_test p scope
      else scan_targets p (lower recipient) scope ts)"
  by (simp add: target_matches_def Let_def)

lemma scan_targets_find:
  "scan_targets p (lower recipient) scope ts =
     (case find (target_matches recipient) ts of
        None \<Rightarrow> False
      | Some t \<Rightarrow> scope_granted p scope)"
  by (induction ts) (simp_all add: scan_targets_Cons scope_test_granted del: scan_targets.simps(2))

text \<open>
  Claim C4, as amended. \<open>can_share_with\<close> is false whenever the packet's consent is
  expired. Otherwise, for a public packet it is the scope test: true when no scope is
  given or the scope is the empty string, else whether the scope is one of the packet's
  scopes. Otherwise the targets are scanned in order for the first one that matches the
  recipient (case-insensitively, as a bare name or as either half of \<open>name:id\<close>); the
  result is the same scope test when there is one, and false when there is none.
\<close>

theorem can_share_with_rules:
  "can_share_with L now p recipient scope =
     (if is_expired L now p then False
      else if public (consent p) then scope_granted p scope
      else (case find (target_matches recipient) (targets (consent p)) of
              None \<Rightarrow> False
            | Some t \<Rightarrow> scope_granted p scope))"
  by (simp add: can_share_with_def scope_test_granted scan_targets_find)

theorem can_share_with_rules_witness:
  "can_share_with sample_lib sample_now (consent_packet private_consent) ''ziggy'' (Some ''read'') \<and>
   can_share_with sample_lib sample_now (consent_packet private_consent) ''USER123'' None \<and>
   \<not> can_share_with sample_lib sample_now (consent_packet private_consent) ''gpt'' (Some ''read'') \<and>
   \<not> can_share_with sample_lib sample_now (consent_packet private_consent) ''Claude'' (Some ''quote'') \<and>
   \<not> can_share_with sample_lib sample_now
        (consent_packet (expiring (Some ''2000-01-01T00:00:00+00:00''))) ''anyone'' None"
  using can_share_with_rules [of sample_lib sample_now "consent_packet private_consent"]
    can_share_with_rules [of sample_lib sample_now
      "consent_packet (expiring (Some ''2000-01-01T00:00:00+00:00''))" "''anyone''" None]
  by (simp add: consent_packet_def private_consent_def expiring_def is_expired_def
      scope_granted_def target_matches_def lower_def lower_char_def
      sample_lib_def sample_fromisoformat_def sample_now_def)

text \<open>
  The claim as stated fails for the empty string as scope: it is given, it is not one of
  the packet's scopes, and the packet may be shared.
\<close>

theorem can_share_with_empty_scope_counterexample:
  "public (consent (consent_packet (expiring None))) \<and>
   \<not> is_expired sample_lib sample_now (consent_packet (expiring None)) \<and>
   [] \<notin> set (scopes (consent (consent_packet (expiring None)))) \<and>
   can_share_with sample_lib sample_now (consent_packet (expiring None)) ''anyone'' (Some [])"
  by (simp add: can_share_with_def is_expired_def scope_test_def truthy_def
      consent_packet_def expiring_def)

subsection \<open>Construction and deserialization\<close>

lemma init_packet_fields:
  assumes "init_packet L tk t c pr md cs h = (p, h')"
  shows "pid p = generate_id L (time_ns tk)" "ptype p = t" "priority p = pr" "content p = c"
    "consent p = consent_of_arg cs"
  using assms
  by (auto simp: init_packet_def Let_def split: prod.splits)

lemma init_packet_metadata:
  assumes "init_packet L tk t c pr md cs h = (p, h')"
  shows "created (cells h' (meta p)) = Some (now_iso tk)"
    "version (cells h' (meta p)) = Some ''2.3.0''"
    "token_count (cells h' (meta p)) = Some (estimate_tokens L c)"
    "checksum (cells h' (meta p)) = Some (calculate_checksum L c)"
  using assms
  by (auto simp: init_packet_def store_cell_def Let_def split: prod.splits)

lemma from_dict_Inr:
  assumes "from_dict L tk d h = (Inr p, h')"
  obtains t pr c p0 where
    "d_type d \<noteq> None" "PacketType_of (the (d_type d)) = Some t"
    "d_priority d \<noteq> None" "PacketPriority_of (the (d_priority d)) = Some pr"
    "d_content d = Some c"
    "init_packet L tk t c pr (d_metadata d) (d_consent d) h = (p0, h')"
    "p = p0\<lparr>pid := (case d_id d of None \<Rightarrow> pid p0 | Some i \<Rightarrow> i)\<rparr>"
  using assms
  by (auto simp: from_dict_def Let_def split: option.splits prod.splits)

lemma from_dict_metadata:
  assumes "from_dict L tk d h = (Inr p, h')"
  shows "created (cells h' (meta p)) = Some (now_iso tk) \<and>
         version (cells h' (meta p)) = Some ''2.3.0'' \<and>
         token_count (cells h' (meta p)) = Some (estimate_tokens L (content p)) \<and>
         checksum (cells h' (meta p)) = Some (calculate_checksum L (content p)) \<and>
         d_content d = Some (content p) \<and>
         pid p = (case d_id d of None \<Rightarrow> generate_id L (time_ns tk) | Some i \<Rightarrow> i)"
proof -
  from assms obtain t pr c p0 where
    c: "d_content d = Some c" and
    i: "init_packet L tk t c pr (d_metadata d) (d_consent d) h = (p0, h')" and
    p: "p = p0\<lparr>pid := (case d_id d of None \<Rightarrow> pid p0 | Some i \<Rightarrow> i)\<rparr>"
    by (rule from_dict_Inr)
  show ?thesis
    using init_packet_fields [OF i] init_packet_metadata [OF i] c
    by (simp add: p split: option.splits)
qed

lemma verify_after_from_dict:
  assumes "from_dict L tk d h = (Inr p, h')"
  shows "verify_integrity L h' p"
  using from_dict_metadata [OF assms] by (simp add: verify_integrity_def)

lemma PacketType_of_value: "PacketType_of (PacketType_value t) = Some t"
  by (cases t) (simp_all add: PacketType_of_def)

lemma PacketPriority_of_value: "PacketPriority_of (PacketPriority_value q) = Some q"
  by (cases q) (simp_all add: PacketPriority_of_def)

lemma consent_of_arg_inverse: "consent_of_arg (Some (arg_of_consent c)) = c"
  by (simp add: consent_of_arg_def arg_of_consent_def)

lemma estimate_tokens_note: "estimate_tokens sample_lib [(''note'', JStr ''hi'')] = 3"
  by (simp add: estimate_tokens_def sample_lib_def)

lemma calculate_checksum_note:
  "calculate_checksum sample_lib [(''note'', JStr ''hi'')] \<noteq> ''deadbeefdeadbeef''"
  by (simp add: calculate_checksum_def sample_lib_def)

lemma tampered_heap_cell:
  "created (cells tampered_heap 0) = Some ''2020-01-01T00:00:00+00:00''"
  "version (cells tampered_heap 0) = Some ''1.0.0''"
  "token_count (cells tampered_heap 0) = Some 999"
  "checksum (cells tampered_heap 0) = Some ''deadbeefdeadbeef''"
  by (simp_all add: tampered_heap_def)

lemma tampered_packet_fields:
  "meta tampered_packet = 0" "content tampered_packet = [(''note'', JStr ''hi'')]"
  "pid tampered_packet = ''cp_42_abcdef01''" "ptype tampered_packet = CONTEXT"
  "consent tampered_packet = default_consent"
  by (simp_all add: tampered_packet_def)

lemma from_dict_tampered:
  "fst (from_dict sample_lib tick1 tampered_dict tampered_heap) = Inr tampered_packet"
  by (simp add: from_dict_def tampered_dict_def tampered_heap_def tampered_packet_def
      PacketType_of_def PacketPriority_of_def init_packet_def is_empty_dict_def store_cell_def
      consent_of_arg_def Let_def)

text \<open>
  Claim C10. Whenever \<open>from_dict\<close> returns a packet, the \<open>created\<close>, \<open>version\<close>,
  \<open>token_count\<close> and \<open>checksum\<close> entries of its metadata are the ones the constructor
  has just computed (the time of the call, the constant version, the estimate and the
  digest of the input's content), whatever the input's metadata held; the id is the
  input's, when it has one.
\<close>

theorem from_dict_recomputes_metadata:
  assumes "fst (from_dict L tk d h) = Inr p"
  shows "created (cells (snd (from_dict L tk d h)) (meta p)) = Some (now_iso tk) \<and>
         version (cells (snd (from_dict L tk d h)) (meta p)) = Some ''2.3.0'' \<and>
         token_count (cells (snd (from_dict L tk d h)) (meta p)) =
           Some (estimate_tokens L (content p)) \<and>
         checksum (cells (snd (from_dict L tk d h)) (meta p)) =
           Some (calculate_checksum L (content p)) \<and>
         d_content d = Some (content p) \<and>
         pid p = (case d_id d of None \<Rightarrow> generate_id L (time_ns tk) | Some i \<Rightarrow> i)"
  using assms from_dict_metadata [of L tk d h p "snd (from_dict L tk d h)"]
  by (cases "from_dict L tk d h") simp

theorem from_dict_recomputes_metadata_witness:
  "created (cells tampered_heap 0) = Some ''2020-01-01T00:00:00+00:00'' \<and>
   version (cells tampered_heap 0) = Some ''1.0.0'' \<and>
   token_count (cells tampered_heap 0) = Some 999 \<and>
   checksum (cells tampered_heap 0) = Some ''deadbeefdeadbeef'' \<and>
   fst (from_dict sample_lib tick1 tampered_dict tampered_heap) = Inr tampered_packet \<and>
   created (cells (snd (from_dict sample_lib tick1 tampered_dict tampered_heap)) 0) =
     Some (now_iso tick1) \<and>
   version (cells (snd (from_dict sample_lib tick1 tampered_dict tampered_heap)) 0) =
     Some ''2.3.0'' \<and>
   token_count (cells (snd (from_dict sample_lib tick1 tampered_dict tampered_heap)) 0) = Some 3 \<and>
   checksum (cells (snd (from_dict sample_lib tick1 tampered_dict tampered_heap)) 0) \<noteq>
     Some ''deadbeefdeadbeef'' \<and>
   pid tampered_packet = ''cp_42_abcdef01''"
  using from_dict_recomputes_metadata [OF from_dict_tampered]
    estimate_tokens_note calculate_checksum_note tampered_heap_cell
  by (simp add: tampered_packet_fields from_dict_tampered)

text \<open>
  Claim C2. For every packet \<open>p\<close>, \<open>from_dict (to_dict p)\<close> returns a packet with the id,
  type, priority, consent and content of \<open>p\<close>, and \<open>verify_integrity\<close> holds of it.
\<close>

theorem from_dict_to_dict_round_trip:
  "\<exists>p' h'. from_dict L tk (to_dict p) h = (Inr p', h') \<and>
     pid p' = pid p \<and> ptype p' = ptype p \<and> priority p' = priority p \<and>
     consent p' = consent p \<and> content p' = content p \<and> verify_integrity L h' p'"
proof -
  obtain p0 h' where i:
    "init_packet L tk (ptype p) (content p) (priority p) (Some (meta p))
       (Some (arg_of_consent (consent p))) h = (p0, h')"
    by (cases "init_packet L tk (ptype p) (content p) (priority p) (Some (meta p))
       (Some (arg_of_consent (consent p))) h")
  have f: "from_dict L tk (to_dict p) h = (Inr (p0\<lparr>pid := pid p\<rparr>), h')"
    by (simp add: from_dict_def to_dict_def PacketType_of_value PacketPriority_of_value i)
  show ?thesis
    using init_packet_fields [OF i] verify_after_from_dict [OF f]
    by (simp add: f consent_of_arg_inverse)
qed

theorem from_dict_to_dict_round_trip_witness:
  "\<exists>p' h'. from_dict sample_lib tick2 (to_dict tampered_packet) tampered_heap = (Inr p', h') \<and>
     pid p' = ''cp_42_abcdef01'' \<and> ptype p' = CONTEXT \<and> priority p' = MEDIUM \<and>
     consent p' = default_consent \<and> content p' = [(''note'', JStr ''hi'')] \<and>
     verify_integrity sample_lib h' p'"
  using from_dict_to_dict_round_trip [of sample_lib tick2 tampered_packet tampered_heap]
  by (simp add: tampered_packet_def)

subsection \<open>Receiving\<close>

lemma last_n_short: "length xs \<le> n \<Longrightarrow> last_n n xs = xs"
  by (simp add: last_n_def)

lemma last_n_snoc: "0 < n \<Longrightarrow> last_n n (xs @ [x]) = last_n (n - 1) xs @ [x]"
  by (simp add: last_n_def Suc_diff_le)

lemma length_last_n: "length (last_n n xs) \<le> n"
  by (simp add: last_n_def)

lemma last_n_last_n_append: "last_n n (last_n n xs @ ys) = last_n n (xs @ ys)"
proof (cases "length xs \<le> n")
  case True
  then show ?thesis by (simp add: last_n_short)
next
  case False
  then have "length xs + length ys - (length xs - n + n) + (length xs - n) =
    length xs + length ys - n"
    by arith
  then show ?thesis by (simp add: last_n_def)
qed

lemma prune_buffers_fields:
  "incoming_buffer (prune_buffers s) = last_n MAX_BUFFER_SIZE (incoming_buffer s)"
  "outgoing_buffer (prune_buffers s) = last_n MAX_BUFFER_SIZE (outgoing_buffer s)"
  "identity_layer (prune_buffers s) = identity_layer s"
  "session_memory (prune_buffers s) = session_memory s"
  "context_layers (prune_buffers s) = context_layers s"
  "max_packet_size (prune_buffers s) = max_packet_size s"
  "compression_threshold (prune_buffers s) = compression_threshold s"
  by (simp_all add: prune_buffers_def Let_def last_n_short)

lemma receive_packet_no_integrity_error:
  "fst (receive_packet L tk now packet_data w) \<noteq> Inl IntegrityError"
  by (auto simp: receive_packet_def verify_after_from_dict parse_input_def from_dict_def Let_def
      split: prod.splits sum.splits raw.splits option.splits loaded.splits)

text \<open>
  Claim C1 does not hold of the code. \<open>from_dict\<close> builds the packet with the constructor,
  which writes the digest of the content over the checksum that the input's metadata
  carried, so the check that follows compares the digest with itself. A dict with valid
  type and priority tags, a content and unexpired consent is received, appended to the
  incoming buffer and routed, whatever checksum it carried.
\<close>

theorem receive_packet_accepts_any_checksum:
  assumes "fst (from_dict L tk d h) = Inr p" and "\<not> is_expired L now p"
  shows "fst (receive_packet L tk now (RawDict d) (s, h)) = Inr p \<and>
         fst (snd (receive_packet L tk now (RawDict d) (s, h))) =
           route_packet p (prune_buffers (s\<lparr>incoming_buffer := incoming_buffer s @ [p]\<rparr>)) \<and>
         last (incoming_buffer (fst (snd (receive_packet L tk now (RawDict d) (s, h))))) = p"
proof (cases "from_dict L tk d h")
  case (Pair r h')
  with assms have f: "from_dict L tk d h = (Inr p, h')" by simp
  show ?thesis
    using assms(2) verify_after_from_dict [OF f]
    by (simp add: receive_packet_def parse_input_def f prune_buffers_fields route_packet_def
        Let_def last_n_snoc MAX_BUFFER_SIZE_def)
qed

theorem receive_packet_accepts_any_checksum_witness:
  "checksum (cells tampered_heap 0) = Some ''deadbeefdeadbeef'' \<and>
   calculate_checksum sample_lib (content tampered_packet) \<noteq> ''deadbeefdeadbeef'' \<and>
   fst (receive_packet sample_lib tick1 sample_now (RawDict tampered_dict)
          (new_handler 8000 4000, tampered_heap)) = Inr tampered_packet \<and>
   incoming_buffer (fst (snd (receive_packet sample_lib tick1 sample_now (RawDict tampered_dict)
          (new_handler 8000 4000, tampered_heap)))) = [tampered_packet] \<and>
   context_layers (fst (snd (receive_packet sample_lib tick1 sample_now (RawDict tampered_dict)
          (new_handler 8000 4000, tampered_heap)))) = [tampered_packet]"
proof -
  have e: "\<not> is_expired sample_lib sample_now tampered_packet"
    by (simp add: is_expired_def tampered_packet_def default_consent_def)
  show ?thesis
    using receive_packet_accepts_any_checksum [OF from_dict_tampered e, of "new_handler 8000 4000"]
      calculate_checksum_note tampered_heap_cell
    by (simp add: tampered_packet_fields new_handler_def prune_buffers_def route_packet_def
        MAX_BUFFER_SIZE_def Let_def)
qed

subsection \<open>Creation\<close>

lemma compress_packet_Inr:
  assumes "checksum (cells h (meta p)) = Some ck" and "token_count (cells h (meta p)) = Some n"
  shows "\<exists>cp. fst (compress_packet L tk p h) = Inr cp \<and>
     map_of (content cp) ''compressed'' = Some (JBool True) \<and>
     map_of (content cp) ''original_id'' = Some (JStr (pid p)) \<and>
     map_of (content cp) ''original_checksum'' = Some (JStr ck) \<and>
     map_of (content cp) ''original_size'' = Some (JInt n) \<and>
     compressed (cells (snd (compress_packet L tk p h)) (meta cp)) = Some True \<and>
     original_checksum (cells (snd (compress_packet L tk p h)) (meta cp)) = Some ck"
  using assms
  by (auto simp: compress_packet_def Let_def store_cell_def init_packet_fields split: prod.splits)

text \<open>
  Claim C7. \<open>create_packet\<close> fails with the size error exactly when the estimated token
  count (the length of the serialized content divided by 4) is greater than
  \<open>max_packet_size\<close>, and returns a packet exactly when the estimate is at most
  \<open>max_packet_size\<close>: a content whose estimate equals the limit is accepted.
\<close>

theorem create_packet_size_admission:
  "(fst (create_packet L tk tk2 s t c prio cs h) = Inl (PacketError ExceedsMaximumSize)) =
     (max_packet_size s < estimate_tokens L c) \<and>
   (\<exists>p. fst (create_packet L tk tk2 s t c prio cs h) = Inr p) =
     (estimate_tokens L c \<le> max_packet_size s)"
proof -
  obtain p h1 where i: "init_packet L tk t c (case prio of None \<Rightarrow> priority_map t | Some q \<Rightarrow> q) None cs h = (p, h1)"
    by (cases "init_packet L tk t c (case prio of None \<Rightarrow> priority_map t | Some q \<Rightarrow> q) None cs h")
  note m = init_packet_metadata [OF i]
  from compress_packet_Inr [OF m(4) m(3), of L tk2]
  obtain cp where cp: "fst (compress_packet L tk2 p h1) = Inr cp" by blast
  show ?thesis
    by (auto simp: create_packet_def Let_def i m(3) cp)
qed

theorem create_packet_size_admission_witness:
  "estimate_tokens sample_lib [(''note'', JStr ''hi'')] = 3 \<and>
   (\<exists>p. fst (create_packet sample_lib tick1 tick2 (new_handler 3 3) CONTEXT
             [(''note'', JStr ''hi'')] None None empty_heap) = Inr p) \<and>
   fst (create_packet sample_lib tick1 tick2 (new_handler 2 2) CONTEXT
          [(''note'', JStr ''hi'')] None None empty_heap) = Inl (PacketError ExceedsMaximumSize)"
  using create_packet_size_admission [of sample_lib tick1 tick2 "new_handler 3 3" CONTEXT
      "[(''note'', JStr ''hi'')]" None None empty_heap]
    create_packet_size_admission [of sample_lib tick1 tick2 "new_handler 2 2" CONTEXT
      "[(''note'', JStr ''hi'')]" None None empty_heap]
    estimate_tokens_note
  by (simp add: new_handler_def)

text \<open>
  Claim C8. When the estimate is above \<open>compression_threshold\<close> and at most
  \<open>max_packet_size\<close>, \<open>create_packet\<close> returns a packet whose content has
  \<open>compressed\<close> true and the id, checksum and size of the packet first built, and whose
  metadata holds that checksum under \<open>original_checksum\<close>.
\<close>

theorem create_packet_compresses:
  assumes "compression_threshold s < estimate_tokens L c"
    and "estimate_tokens L c \<le> max_packet_size s"
  shows "\<exists>p. fst (create_packet L tk tk2 s t c prio cs h) = Inr p \<and>
     map_of (content p) ''compressed'' = Some (JBool True) \<and>
     map_of (content p) ''original_id'' = Some (JStr (generate_id L (time_ns tk))) \<and>
     map_of (content p) ''original_checksum'' = Some (JStr (calculate_checksum L c)) \<and>
     map_of (content p) ''original_size'' = Some (JInt (estimate_tokens L c)) \<and>
     compressed (cells (snd (create_packet L tk tk2 s t c prio cs h)) (meta p)) = Some True \<and>
     original_checksum (cells (snd (create_packet L tk tk2 s t c prio cs h)) (meta p)) =
       Some (calculate_checksum L c)"
proof -
  obtain p0 h1 where i: "init_packet L tk t c (case prio of None \<Rightarrow> priority_map t | Some q \<Rightarrow> q) None cs h = (p0, h1)"
    by (cases "init_packet L tk t c (case prio of None \<Rightarrow> priority_map t | Some q \<Rightarrow> q) None cs h")
  note m = init_packet_metadata [OF i]
  have c: "create_packet L tk tk2 s t c prio cs h = compress_packet L tk2 p0 h1"
    using assms by (simp add: create_packet_def Let_def i m(3))
  show ?thesis
    using compress_packet_Inr [OF m(4) m(3), of L tk2] init_packet_fields(1) [OF i]
    by (simp add: c)
qed

theorem create_packet_compresses_witness:
  "\<exists>p. fst (create_packet sample_lib tick1 tick2 (new_handler 10 2) CONTEXT
             [(''note'', JStr ''hi'')] None None empty_heap) = Inr p \<and>
     map_of (content p) ''compressed'' = Some (JBool True) \<and>
     map_of (content p) ''original_id'' = Some (JStr ''cp_1700000000000000001_17000000'') \<and>
     map_of (content p) ''original_checksum'' =
       Some (JStr (calculate_checksum sample_lib [(''note'', JStr ''hi'')])) \<and>
     map_of (content p) ''original_size'' = Some (JInt 3) \<and>
     compressed (cells (snd (create_packet sample_lib tick1 tick2 (new_handler 10 2) CONTEXT
             [(''note'', JStr ''hi'')] None None empty_heap)) (meta p)) = Some True \<and>
     original_checksum (cells (snd (create_packet sample_lib tick1 tick2 (new_handler 10 2) CONTEXT
             [(''note'', JStr ''hi'')] None None empty_heap)) (meta p)) =
       Some (calculate_checksum sample_lib [(''note'', JStr ''hi'')])"
proof -
  have g: "generate_id sample_lib (time_ns tick1) = ''cp_1700000000000000001_17000000''"
    by (simp add: generate_id_def sample_lib_def tick1_def)
  show ?thesis
    using create_packet_compresses [of "new_handler 10 2" sample_lib "[(''note'', JStr ''hi'')]"
        tick1 tick2 CONTEXT None None empty_heap]
      estimate_tokens_note
    by (simp add: new_handler_def g)
qed

subsection \<open>Buffers and tiers over sequences of operations\<close>

lemma route_packet_fields:
  "incoming_buffer (route_packet p s) = incoming_buffer s"
  "outgoing_buffer (route_packet p s) = outgoing_buffer s"
  "identity_layer (route_packet p s) = (if ptype p = IDENTITY then Some p else identity_layer s)"
  "session_memory (route_packet p s) =
     (if ptype p = SESSION then last_n 10 (session_memory s @ [p]) else session_memory s)"
  "context_layers (route_packet p s) =
     (if ptype p = CONTEXT then last_n 20 (context_layers s @ [p]) else context_layers s)"
  by (simp_all add: route_packet_def Let_def last_n_short)

lemma receive_packet_cases:
  "(\<exists>e. fst (receive_packet L tk now d (s, h)) = Inl e \<and> fst (snd (receive_packet L tk now d (s, h))) = s) \<or>
   (\<exists>p. fst (receive_packet L tk now d (s, h)) = Inr p \<and>
        fst (snd (receive_packet L tk now d (s, h))) =
          route_packet p (prune_buffers (s\<lparr>incoming_buffer := incoming_buffer s @ [p]\<rparr>)))"
  by (auto simp: receive_packet_def Let_def split: prod.splits sum.splits)

lemma emit_packet_handler:
  "fst (snd (emit_packet L ok p (s, h))) =
     prune_buffers (s\<lparr>outgoing_buffer := outgoing_buffer s @ [p]\<rparr>)"
  by (simp add: emit_packet_def Let_def)

lemma step_fields:
  assumes "bounded s"
  shows "incoming_buffer (fst (step L x (s, h))) =
           last_n MAX_BUFFER_SIZE (incoming_buffer s @ received L x (s, h))"
    and "outgoing_buffer (fst (step L x (s, h))) =
           last_n MAX_BUFFER_SIZE (outgoing_buffer s @ emitted x)"
    and "session_memory (fst (step L x (s, h))) =
           last_n 10 (session_memory s @ filter (\<lambda>p. ptype p = SESSION) (received L x (s, h)))"
    and "context_layers (fst (step L x (s, h))) =
           last_n 20 (context_layers s @ filter (\<lambda>p. ptype p = CONTEXT) (received L x (s, h)))"
    and "identity_layer (fst (step L x (s, h))) =
           (case last_of_type IDENTITY (received L x (s, h)) of
              None \<Rightarrow> identity_layer s | Some p \<Rightarrow> Some p)"
proof -
  note b = assms [unfolded bounded_def]
  show "incoming_buffer (fst (step L x (s, h))) =
           last_n MAX_BUFFER_SIZE (incoming_buffer s @ received L x (s, h))"
  proof (cases x)
    case (Receive tk now d)
    then show ?thesis
      using receive_packet_cases [of L tk now d s h] b
      by (auto simp: step_def received_def route_packet_fields prune_buffers_fields last_n_short)
  next
    case (Emit ok p)
    then show ?thesis
      using b by (simp add: step_def received_def emit_packet_handler prune_buffers_fields last_n_short)
  qed
  show "outgoing_buffer (fst (step L x (s, h))) =
           last_n MAX_BUFFER_SIZE (outgoing_buffer s @ emitted x)"
  proof (cases x)
    case (Receive tk now d)
    then show ?thesis
      using receive_packet_cases [of L tk now d s h] b
      by (auto simp: step_def emitted_def route_packet_fields prune_buffers_fields last_n_short)
  next
    case (Emit ok p)
    then show ?thesis
      using b by (simp add: step_def emitted_def emit_packet_handler prune_buffers_fields)
  qed
  show "session_memory (fst (step L x (s, h))) =
           last_n 10 (session_memory s @ filter (\<lambda>p. ptype p = SESSION) (received L x (s, h)))"
  proof (cases x)
    case (Receive tk now d)
    then show ?thesis
      using receive_packet_cases [of L tk now d s h] b
      by (auto simp: step_def received_def route_packet_fields prune_buffers_fields last_n_short)
  next
    case (Emit ok p)
    then show ?thesis
      using b by (simp add: step_def received_def emit_packet_handler prune_buffers_fields last_n_short)
  qed
  show "context_layers (fst (step L x (s, h))) =
           last_n 20 (context_layers s @ filter (\<lambda>p. ptype p = CONTEXT) (received L x (s, h)))"
  proof (cases x)
    case (Receive tk now d)
    then show ?thesis
      using receive_packet_cases [of L tk now d s h] b
      by (auto simp: step_def received_def route_packet_fields prune_buffers_fields last_n_short)
  next
    case (Emit ok p)
    then show ?thesis
      using b by (simp add: step_def received_def emit_packet_handler prune_buffers_fields last_n_short)
  qed
  show "identity_layer (fst (step L x (s, h))) =
           (case last_of_type IDENTITY (received L x (s, h)) of
              None \<Rightarrow> identity_layer s | Some p \<Rightarrow> Some p)"
  proof (cases x)
    case (Receive tk now d)
    then show ?thesis
      using receive_packet_cases [of L tk now d s h]
      by (auto simp: step_def received_def route_packet_fields prune_buffers_fields last_of_type_def)
  next
    case (Emit ok p)
    then show ?thesis
      by (simp add: step_def received_def emit_packet_handler prune_buffers_fields last_of_type_def)
  qed
qed

lemma step_bounded:
  assumes "bounded s"
  shows "bounded (fst (step L x (s, h)))"
  unfolding bounded_def
  using step_fields [OF assms, of L x h]
  by (simp add: length_last_n)

lemma last_of_type_if:
  "last_of_type t ps =
     (if filter (\<lambda>p. ptype p = t) ps = [] then None
      else Some (last (filter (\<lambda>p. ptype p = t) ps)))"
  by (simp add: last_of_type_def split: list.splits)

lemma last_of_type_append:
  "last_of_type t (xs @ ys) =
     (case last_of_type t ys of None \<Rightarrow> last_of_type t xs | Some p \<Rightarrow> Some p)"
  by (simp add: last_of_type_if)

lemma run_fields:
  assumes "bounded (fst w)"
  shows "incoming_buffer (fst (run L xs w)) =
           last_n MAX_BUFFER_SIZE (incoming_buffer (fst w) @ received_log L xs w) \<and>
         outgoing_buffer (fst (run L xs w)) =
           last_n MAX_BUFFER_SIZE (outgoing_buffer (fst w) @ emitted_log xs) \<and>
         session_memory (fst (run L xs w)) =
           last_n 10 (session_memory (fst w) @ filter (\<lambda>p. ptype p = SESSION) (received_log L xs w)) \<and>
         context_layers (fst (run L xs w)) =
           last_n 20 (context_layers (fst w) @ filter (\<lambda>p. ptype p = CONTEXT) (received_log L xs w)) \<and>
         identity_layer (fst (run L xs w)) =
           (case last_of_type IDENTITY (received_log L xs w) of
              None \<Rightarrow> identity_layer (fst w) | Some p \<Rightarrow> Some p)"
  using assms
proof (induction xs arbitrary: w)
  case Nil
  then show ?case
    by (simp add: bounded_def last_n_short emitted_log_def last_of_type_def)
next
  case (Cons x xs)
  obtain s h where w: "w = (s, h)" by (cases w)
  with Cons.prems have b: "bounded s" by simp
  have b': "bounded (fst (step L x w))"
    using step_bounded [OF b] by (simp add: w)
  note f = step_fields [OF b, of L x h]
  show ?case
    using Cons.IH [OF b'] f
    by (simp add: w last_n_last_n_append emitted_log_def last_of_type_append split: option.splits)
qed

text \<open>
  Claim C6. After any sequence of receive and emit calls on a new handler, the incoming
  buffer is the last 200 packets received and the outgoing buffer the last 200 packets
  emitted, \<open>session_memory\<close> is the last 10 SESSION packets received, \<open>context_layers\<close>
  the last 20 CONTEXT packets received, and the identity layer is the last IDENTITY packet
  received, if any.
\<close>

theorem buffers_hold_most_recent:
  "incoming_buffer (fst (run L xs (new_handler mps thr, h))) =
     last_n 200 (received_log L xs (new_handler mps thr, h)) \<and>
   length (incoming_buffer (fst (run L xs (new_handler mps thr, h)))) \<le> 200 \<and>
   outgoing_buffer (fst (run L xs (new_handler mps thr, h))) = last_n 200 (emitted_log xs) \<and>
   length (outgoing_buffer (fst (run L xs (new_handler mps thr, h)))) \<le> 200 \<and>
   session_memory (fst (run L xs (new_handler mps thr, h))) =
     last_n 10 (filter (\<lambda>p. ptype p = SESSION) (received_log L xs (new_handler mps thr, h))) \<and>
   length (session_memory (fst (run L xs (new_handler mps thr, h)))) \<le> 10 \<and>
   context_layers (fst (run L xs (new_handler mps thr, h))) =
     last_n 20 (filter (\<lambda>p. ptype p = CONTEXT) (received_log L xs (new_handler mps thr, h))) \<and>
   length (context_layers (fst (run L xs (new_handler mps thr, h)))) \<le> 20 \<and>
   identity_layer (fst (run L xs (new_handler mps thr, h))) =
     last_of_type IDENTITY (received_log L xs (new_handler mps thr, h))"
proof -
  have b: "bounded (fst (new_handler mps thr, h))"
    by (simp add: bounded_def new_handler_def)
  have e: "incoming_buffer (new_handler mps thr) = []" "outgoing_buffer (new_handler mps thr) = []"
    "session_memory (new_handler mps thr) = []" "context_layers (new_handler mps thr) = []"
    "identity_layer (new_handler mps thr) = None"
    by (simp_all add: new_handler_def)
  show ?thesis
    using run_fields [OF b, of L xs]
    by (simp add: e length_last_n MAX_BUFFER_SIZE_def split: option.splits)
qed

lemma received_log_sample:
  "received_log sample_lib sample_operations (new_handler 8000 4000, tampered_heap) = [tampered_packet]"
  by (simp add: sample_operations_def received_def step_def receive_packet_def parse_input_def
      from_dict_def tampered_dict_def tampered_heap_def tampered_packet_def
      PacketType_of_def PacketPriority_of_def init_packet_def is_empty_dict_def store_cell_def
      consent_of_arg_def default_consent_def verify_integrity_def is_expired_def Let_def)

theorem buffers_hold_most_recent_witness:
  "incoming_buffer (fst (run sample_lib sample_operations (new_handler 8000 4000, tampered_heap))) =
     [tampered_packet] \<and>
   outgoing_buffer (fst (run sample_lib sample_operations (new_handler 8000 4000, tampered_heap))) =
     [tampered_packet] \<and>
   session_memory (fst (run sample_lib sample_operations (new_handler 8000 4000, tampered_heap))) = [] \<and>
   context_layers (fst (run sample_lib sample_operations (new_handler 8000 4000, tampered_heap))) =
     [tampered_packet] \<and>
   identity_layer (fst (run sample_lib sample_operations (new_handler 8000 4000, tampered_heap))) = None"
proof -
  have e: "emitted_log sample_operations = [tampered_packet]"
    by (simp add: emitted_log_def emitted_def sample_operations_def)
  show ?thesis
    using buffers_hold_most_recent [of sample_lib sample_operations 8000 4000 tampered_heap]
    by (simp add: received_log_sample e last_n_def last_of_type_def tampered_packet_fields)
qed

subsection \<open>Failing calls\<close>

lemmas shared_evals = receive_packet_def parse_input_def
      from_dict_def first_dict_def second_dict_def shared_heap_def stored_packet_def
      PacketType_of_def PacketPriority_of_def init_packet_def is_empty_dict_def store_cell_def
      consent_of_arg_def default_consent_def verify_integrity_def is_expired_def Let_def
      new_handler_def prune_buffers_def route_packet_def MAX_BUFFER_SIZE_def empty_metadata_def
      sample_lib_def sample_fromisoformat_def sample_now_def calculate_checksum_def

text \<open>A call writes to no allocated metadata object but the one its dict argument holds.\<close>

lemma init_packet_frame:
  assumes "init_packet L tk t c pr md cs h = (p, h')" and "a < next_addr h" and "md \<noteq> Some a"
  shows "cells h' a = cells h a" and "next_addr h \<le> next_addr h'"
  using assms
  by (auto simp: init_packet_def alloc_def store_cell_def Let_def split: option.splits if_splits)

lemma from_dict_frame:
  assumes "from_dict L tk d h = (r, h')" and "a < next_addr h" and "d_metadata d \<noteq> Some a"
  shows "cells h' a = cells h a"
  using assms init_packet_frame(1) [of L tk _ _ _ "d_metadata d" "d_consent d" h _ h' a]
  by (auto simp: from_dict_def Let_def split: option.splits prod.splits)

lemma parse_input_frame:
  assumes "parse_input L raw h = (r, h0)" and "a < next_addr h"
  shows "cells h0 a = cells h a" and "next_addr h \<le> next_addr h0"
    and "r = Inr d \<Longrightarrow> raw \<noteq> RawDict d \<Longrightarrow> d_metadata d \<noteq> Some a"
  using assms
  by (auto simp: parse_input_def alloc_def Let_def split: raw.splits option.splits loaded.splits)

lemma receive_packet_frame:
  assumes "a < next_addr h" and "\<And>d. raw = RawDict d \<Longrightarrow> d_metadata d \<noteq> Some a"
  shows "cells (snd (snd (receive_packet L tk now raw (s, h)))) a = cells h a"
proof -
  obtain r0 h0 where pi: "parse_input L raw h = (r0, h0)" by (cases "parse_input L raw h")
  note p = parse_input_frame [OF pi assms(1)]
  show ?thesis
  proof (cases r0)
    case (Inl e)
    then show ?thesis using p(1) by (simp add: receive_packet_def pi)
  next
    case (Inr d)
    obtain r h1 where fd: "from_dict L tk d h0 = (r, h1)" by (cases "from_dict L tk d h0")
    have na: "d_metadata d \<noteq> Some a"
      using p(3) [OF Inr] assms(2) by blast
    have "a < next_addr h0" using assms(1) p(2) by simp
    from from_dict_frame [OF fd this na] p(1) have "cells h1 a = cells h a" by simp
    then show ?thesis
      by (cases r) (simp_all add: receive_packet_def pi Inr fd)
  qed
qed

lemma receive_packet_failure_keeps_handler:
  assumes "fst (receive_packet L tk now d (s, h)) = Inl e"
  shows "fst (snd (receive_packet L tk now d (s, h))) = s"
  using assms receive_packet_cases [of L tk now d s h] by auto

text \<open>
  Claim C5 does not hold of the code. A failing call leaves the handler's buffers and
  tiers holding the packets they held (\<open>receive_packet_failure_keeps_handler\<close>) and
  every metadata object other than its argument's as it was (\<open>receive_packet_frame\<close>), but
  \<open>from_dict\<close> runs the constructor before the checks, and the constructor writes into the
  metadata object of the dict it is given. When that object is also the metadata of a
  stored packet, a call that fails with expired consent has already replaced the stored
  packet's \<open>created\<close>, \<open>token_count\<close> and \<open>checksum\<close>: below, the packet in
  \<open>session_memory\<close> verified before the failing call and does not after it.
\<close>

theorem failed_receive_rewrites_stored_metadata:
  "fst (receive_packet sample_lib tick1 sample_now (RawDict first_dict)
          (new_handler 8000 4000, shared_heap)) = Inr stored_packet \<and>
   session_memory (fst world_before) = [stored_packet] \<and>
   verify_integrity sample_lib (snd world_before) stored_packet \<and>
   created (cells (snd world_before) (meta stored_packet)) = Some (now_iso tick1) \<and>
   fst (receive_packet sample_lib tick2 sample_now (RawDict second_dict) world_before) =
     Inl ConsentError \<and>
   fst (snd (receive_packet sample_lib tick2 sample_now (RawDict second_dict) world_before)) =
     fst world_before \<and>
   \<not> verify_integrity sample_lib
       (snd (snd (receive_packet sample_lib tick2 sample_now (RawDict second_dict) world_before)))
       stored_packet \<and>
   created (cells (snd (snd (receive_packet sample_lib tick2 sample_now (RawDict second_dict)
       world_before))) (meta stored_packet)) = Some (now_iso tick2) \<and>
   now_iso tick1 \<noteq> now_iso tick2"
  by (simp add: world_before_def shared_evals tick1_def tick2_def)

subsection \<open>Context reconstruction\<close>

lemma precedes_key: "precedes h p q \<longleftrightarrow> sort_key_of h p \<le> sort_key_of h q"
  by (auto simp: precedes_def sort_key_of_def)

lemma sorted_pool: "sorted_wrt (precedes h) (sort_key (sort_key_of h) pool)"
  using sorted_sort_key [of "sort_key_of h" pool]
  by (simp add: sorted_map precedes_key [abs_def])

lemma select_loop_set: "snd ` set (select_loop h ps b) \<subseteq> set ps"
  by (induction ps arbitrary: b) (auto simp: Let_def)

lemma select_loop_sorted:
  "sorted_wrt R ps \<Longrightarrow> sorted_wrt R (map snd (select_loop h ps b))"
proof (induction ps arbitrary: b)
  case Nil
  then show ?case by simp
next
  case (Cons p ps)
  have "\<And>b' q. q \<in> set (select_loop h ps b') \<Longrightarrow> R p (snd q)"
    using Cons.prems select_loop_set [of h ps] by auto
  with Cons show ?case by (auto simp: Let_def)
qed

lemma select_loop_label: "(l, p) \<in> set (select_loop h ps b) \<Longrightarrow> l = type_label p"
  by (induction ps arbitrary: b) (auto simp: Let_def split: if_splits)

lemma select_loop_budget:
  "0 \<le> b \<Longrightarrow> sum_list (map (\<lambda>x. tokens (layer_of h (snd x))) (select_loop h ps b)) \<le> b"
proof (induction ps arbitrary: b)
  case Nil
  then show ?case by simp
next
  case (Cons p ps)
  define n where "n = (case token_count (cells h (meta p)) of None \<Rightarrow> 0 | Some k \<Rightarrow> k)"
  have t: "tokens (layer_of h p) = n" by (simp add: layer_of_def n_def)
  show ?case
  proof (cases "n \<le> b")
    case True
    then have "0 \<le> b - n" by simp
    from Cons.IH [OF this] True show ?thesis
      by (simp add: Let_def t n_def [symmetric])
  next
    case False
    with Cons.IH [OF Cons.prems] Cons.prems show ?thesis
      by (simp add: Let_def n_def [symmetric])
  qed
qed

lemma selected_layers_counted:
  "\<forall>x \<in> set sel. token_count (cells h (meta (snd x))) \<noteq> None \<and> fst x = type_label (snd x) \<Longrightarrow>
   selected_layers h sel = Inr (map (layer_of h) (map snd sel))"
  by (induction sel) (auto simp: layer_of_def)

lemma identity_step_counted:
  assumes "0 \<le> B" and "tiers_counted h s"
  shows "\<exists>first remaining. identity_step h s B inc = Inr (first, remaining) \<and>
           0 \<le> remaining \<and> sum_list (map tokens first) + remaining = B \<and> length first \<le> 1"
  using assms
  by (auto simp: identity_step_def tiers_counted_def split: option.splits)

text \<open>Every store reached from a new handler has token counts in its tiers.\<close>

lemma init_packet_heap:
  assumes "init_packet L tk t c pr md cs h = (p, h')"
    and "case md of None \<Rightarrow> True | Some a \<Rightarrow> a < next_addr h"
  shows "counted_at h' p" and "counted_at h q \<Longrightarrow> counted_at h' q"
  using assms
  by (auto simp: init_packet_def alloc_def store_cell_def counted_at_def Let_def
      split: option.splits if_splits)

lemma parse_input_heap:
  assumes "parse_input L raw h = (Inr d, h0)"
    and "allocated_input h (Receive tk now raw)"
  shows "case d_metadata d of None \<Rightarrow> True | Some a \<Rightarrow> a < next_addr h0"
    and "counted_at h q \<Longrightarrow> counted_at h0 q"
  using assms
  by (auto simp: parse_input_def alloc_def counted_at_def allocated_input_def Let_def
      split: raw.splits option.splits loaded.splits)

lemma parse_input_error_heap: "parse_input L raw h = (Inl e, h0) \<Longrightarrow> h0 = h"
  by (auto simp: parse_input_def alloc_def Let_def split: raw.splits option.splits loaded.splits)

lemma from_dict_heap:
  assumes "from_dict L tk d h = (r, h')"
    and "case d_metadata d of None \<Rightarrow> True | Some a \<Rightarrow> a < next_addr h"
  shows "counted_at h q \<Longrightarrow> counted_at h' q" and "r = Inr p \<Longrightarrow> counted_at h' p"
proof -
  show "counted_at h q \<Longrightarrow> counted_at h' q"
    using assms init_packet_heap(2) [of L tk _ _ _ "d_metadata d" "d_consent d" h _ h' q]
    by (auto simp: from_dict_def Let_def split: option.splits prod.splits)
  show "r = Inr p \<Longrightarrow> counted_at h' p"
    using assms init_packet_heap(1) [of L tk _ _ _ "d_metadata d" "d_consent d" h _ h']
    by (auto simp: from_dict_def Let_def counted_at_def split: option.splits prod.splits)
qed

lemma set_tiers_route:
  "set (tiers (route_packet p s)) \<subseteq> insert p (set (tiers s))"
  by (auto simp: tiers_def route_packet_def Let_def last_n_def dest: in_set_dropD split: option.splits)

lemma tiers_prune: "tiers (prune_buffers s) = tiers s"
  by (simp add: tiers_def prune_buffers_fields)

lemma tiers_incoming: "tiers (s\<lparr>incoming_buffer := b\<rparr>) = tiers s"
  by (simp add: tiers_def)

lemma tiers_outgoing: "tiers (s\<lparr>outgoing_buffer := b\<rparr>) = tiers s"
  by (simp add: tiers_def)

lemma step_well_formed:
  assumes "well_formed w" and "allocated_input (snd w) x"
  shows "well_formed (step L x w)"
proof (cases x)
  case (Emit ok p)
  obtain s h where w: "w = (s, h)" by (cases w)
  show ?thesis
    using assms(1)
    by (simp add: Emit w step_def emit_packet_def Let_def well_formed_def tiers_prune tiers_outgoing)
next
  case (Receive tk now raw)
  obtain s h where w: "w = (s, h)" by (cases w)
  from assms(1) have wf: "\<And>q. q \<in> set (tiers s) \<Longrightarrow> counted_at h q"
    by (simp add: well_formed_def w list_all_iff)
  obtain r0 h0 where pi: "parse_input L raw h = (r0, h0)" by (cases "parse_input L raw h")
  show ?thesis
  proof (cases r0)
    case (Inl e)
    with pi have "h0 = h" by (simp add: parse_input_error_heap)
    with pi Inl assms(1) show ?thesis
      by (simp add: Receive w step_def receive_packet_def)
  next
    case (Inr d)
    note p = parse_input_heap [OF pi [unfolded Inr] assms(2) [unfolded Receive w snd_conv]]
    obtain r h1 where fd: "from_dict L tk d h0 = (r, h1)" by (cases "from_dict L tk d h0")
    note f = from_dict_heap [OF fd p(1)]
    have keep: "\<And>q. q \<in> set (tiers s) \<Longrightarrow> counted_at h1 q"
      using wf p(2) f(1) by blast
    show ?thesis
    proof (cases r)
      case (Inl e)
      then show ?thesis
        using keep by (simp add: Receive w step_def receive_packet_def pi Inr fd well_formed_def list_all_iff)
    next
      case (Inr pk)
      have new: "counted_at h1 pk" using f(2) [of pk] Inr by simp
      have "\<And>q. q \<in> set (tiers (route_packet pk (prune_buffers (s\<lparr>incoming_buffer := incoming_buffer s @ [pk]\<rparr>)))) \<Longrightarrow> counted_at h1 q"
        using set_tiers_route [of pk "prune_buffers (s\<lparr>incoming_buffer := incoming_buffer s @ [pk]\<rparr>)"] keep new
        by (auto simp: tiers_prune tiers_incoming)
      then show ?thesis
        using keep
        by (simp add: Receive w step_def receive_packet_def pi \<open>r0 = Inr d\<close> fd Inr well_formed_def list_all_iff)
    qed
  qed
qed

lemma run_well_formed:
  "well_formed w \<Longrightarrow> allocated_inputs L xs w \<Longrightarrow> well_formed (run L xs w)"
  by (induction xs arbitrary: w) (simp_all add: step_well_formed)

lemma new_handler_well_formed: "well_formed (new_handler mps thr, h)"
  by (simp add: well_formed_def tiers_def new_handler_def)

lemma run_tiers_counted:
  assumes "allocated_inputs L xs (new_handler mps thr, h)"
  shows "tiers_counted (snd (run L xs (new_handler mps thr, h))) (fst (run L xs (new_handler mps thr, h)))"
  using run_well_formed [OF new_handler_well_formed assms]
  by (auto simp: well_formed_def tiers_counted_def tiers_def counted_at_def list_all_iff)

text \<open>
  Claim C3, as amended. For every store whose tier packets carry a token count (as every
  packet built by the constructor does) and every token budget \<open>B \<ge> 0\<close>,
  \<open>reconstruct_context\<close> returns layers whose token counts sum to at most \<open>B\<close>; the
  layers are the identity layer of step 1, if it is included, followed by the layers of
  packets of \<open>session_memory\<close> and \<open>context_layers\<close> in non-decreasing priority-value
  order, ties broken by ascending \<open>created\<close>.
\<close>

theorem reconstruct_context_budget_order:
  assumes "0 \<le> B" and "tiers_counted h s"
  shows "\<exists>ctx first remaining ps.
           reconstruct_context ts B inc (s, h) = Inr ctx \<and>
           sum_list (map tokens (layers ctx)) \<le> B \<and>
           identity_step h s B inc = Inr (first, remaining) \<and>
           length first \<le> 1 \<and>
           layers ctx = first @ map (layer_of h) ps \<and>
           set ps \<subseteq> set (session_memory s @ context_layers s) \<and>
           sorted_wrt (precedes h) ps"
proof -
  from identity_step_counted [OF assms, of inc] obtain first remaining where
    i: "identity_step h s B inc = Inr (first, remaining)" and r: "0 \<le> remaining" and
    f: "sum_list (map tokens first) + remaining = B" and l: "length first \<le> 1"
    by blast
  define pool where "pool = session_memory s @ context_layers s"
  define sel where "sel = select_packets_by_priority h pool remaining"
  define ps where "ps = map snd sel"
  have sub: "set ps \<subseteq> set pool"
    using select_loop_set [of h "sort_key (sort_key_of h) pool" remaining]
    by (simp add: ps_def sel_def select_packets_by_priority_def)
  have counted: "\<And>p. p \<in> set pool \<Longrightarrow> token_count (cells h (meta p)) \<noteq> None"
    using assms(2) by (auto simp: tiers_counted_def pool_def list_all_iff)
  have ls: "selected_layers h sel = Inr (map (layer_of h) ps)"
    unfolding ps_def
  proof (rule selected_layers_counted, rule ballI)
    fix x
    assume m: "x \<in> set sel"
    then have "snd x \<in> set ps" by (simp add: ps_def)
    with sub counted have "token_count (cells h (meta (snd x))) \<noteq> None" by blast
    moreover from m have "fst x = type_label (snd x)"
      using select_loop_label [of "fst x" "snd x" h "sort_key (sort_key_of h) pool" remaining]
      by (simp add: sel_def select_packets_by_priority_def)
    ultimately show "token_count (cells h (meta (snd x))) \<noteq> None \<and> fst x = type_label (snd x)"
      by simp
  qed
  have srt: "sorted_wrt (precedes h) ps"
    unfolding ps_def sel_def select_packets_by_priority_def
    by (rule select_loop_sorted) (rule sorted_pool)
  have bud: "sum_list (map tokens (map (layer_of h) ps)) \<le> remaining"
    using select_loop_budget [OF r, of h "sort_key (sort_key_of h) pool"]
    by (simp add: ps_def sel_def select_packets_by_priority_def comp_def)
  define ctx where "ctx =
      \<lparr>timestamp = ts, layers = first @ map (layer_of h) ps, handler_version = ''2.3.0'',
       total_tokens = B - (remaining - sum_list (map tokens (map (layer_of h) ps))),
       remaining_tokens = remaining - sum_list (map tokens (map (layer_of h) ps))\<rparr>"
  have rc: "reconstruct_context ts B inc (s, h) = Inr ctx"
    using ls by (simp add: reconstruct_context_def i Let_def pool_def sel_def ctx_def)
  have lay: "layers ctx = first @ map (layer_of h) ps"
    by (simp add: ctx_def)
  have total: "sum_list (map tokens (layers ctx)) \<le> B"
    using bud f by (simp add: lay)
  show ?thesis
    using rc total i l lay sub srt unfolding pool_def by blast
qed

lemmas two_tier_evals = receive_packet_def parse_input_def step_def
      from_dict_def identity_dict_def session_dict_def empty_heap_def identity_packet_def session_packet_def
      PacketType_of_def PacketPriority_of_def init_packet_def is_empty_dict_def store_cell_def alloc_def
      consent_of_arg_def default_consent_def verify_integrity_def is_expired_def Let_def
      new_handler_def prune_buffers_def route_packet_def MAX_BUFFER_SIZE_def empty_metadata_def
      sample_lib_def calculate_checksum_def estimate_tokens_def tick1_def tick2_def

lemma two_tier_world_handler:
  "fst two_tier_world =
     \<lparr>max_packet_size = 8000, compression_threshold = 4000,
      incoming_buffer = [identity_packet, session_packet], outgoing_buffer = [],
      identity_layer = Some identity_packet, context_layers = [],
      session_memory = [session_packet]\<rparr>"
  by (simp add: two_tier_world_def two_tier_evals last_n_def)

lemma two_tier_world_cells:
  "token_count (cells (snd two_tier_world) 0) = Some 3"
  "token_count (cells (snd two_tier_world) (Suc 0)) = Some 3"
  "created (cells (snd two_tier_world) (Suc 0)) = Some ''2023-11-14T22:13:20.000002+00:00''"
  by (simp_all add: two_tier_world_def two_tier_evals)

lemma two_tier_world_counted: "tiers_counted (snd two_tier_world) (fst two_tier_world)"
  by (simp add: tiers_counted_def two_tier_world_handler two_tier_world_cells
      identity_packet_def session_packet_def)

lemma reconstruct_two_tier:
  "reconstruct_context ''t'' 4000 True two_tier_world =
     Inr \<lparr>timestamp = ''t'',
          layers = [\<lparr>layer_type = ''identity'', layer_content = [(''name'', JStr ''Ada'')], tokens = 3\<rparr>,
                    \<lparr>layer_type = ''session'', layer_content = [(''note'', JStr ''hi'')], tokens = 3\<rparr>],
          handler_version = ''2.3.0'', total_tokens = 6, remaining_tokens = 3994\<rparr>"
proof -
  have w: "two_tier_world = (fst two_tier_world, snd two_tier_world)" by simp
  show ?thesis
    apply (subst w)
    apply (simp only: reconstruct_context_def split)
    apply (simp add: two_tier_world_handler identity_step_def select_packets_by_priority_def
        two_tier_world_cells identity_packet_def session_packet_def Let_def type_label_def)
    done
qed

lemma reconstruct_negative_budget:
  "reconstruct_context ''t'' (- 1) True (new_handler 8000 4000, empty_heap) =
     Inr \<lparr>timestamp = ''t'', layers = [], handler_version = ''2.3.0'',
          total_tokens = 0, remaining_tokens = - 1\<rparr>"
  by (simp add: reconstruct_context_def identity_step_def select_packets_by_priority_def new_handler_def)

theorem reconstruct_context_budget_order_witness:
  "tiers_counted (snd two_tier_world) (fst two_tier_world) \<and>
   (\<exists>ctx first remaining ps.
      reconstruct_context ''t'' 4000 True two_tier_world = Inr ctx \<and>
      sum_list (map tokens (layers ctx)) \<le> 4000 \<and>
      identity_step (snd two_tier_world) (fst two_tier_world) 4000 True = Inr (first, remaining) \<and>
      length first \<le> 1 \<and>
      layers ctx = first @ map (layer_of (snd two_tier_world)) ps \<and>
      set ps \<subseteq> set (session_memory (fst two_tier_world) @ context_layers (fst two_tier_world)) \<and>
      sorted_wrt (precedes (snd two_tier_world)) ps)"
  using reconstruct_context_budget_order [of 4000 "snd two_tier_world" "fst two_tier_world"
      "''t''" True] two_tier_world_counted
  by simp

text \<open>
  The claim as stated fails in two ways. With a negative budget nothing is selected, and
  the sum 0 of the token counts is above the budget. And the identity layer comes first
  whatever its priority: here it has priority value 4 and precedes a session layer of
  priority value 3.
\<close>

theorem reconstruct_context_order_counterexample:
  "(\<exists>ctx. reconstruct_context ''t'' (- 1) True (new_handler 8000 4000, empty_heap) = Inr ctx \<and>
          \<not> sum_list (map tokens (layers ctx)) \<le> - 1) \<and>
   identity_layer (fst two_tier_world) = Some identity_packet \<and>
   session_memory (fst two_tier_world) = [session_packet] \<and>
   context_layers (fst two_tier_world) = [] \<and>
   (\<exists>ctx. reconstruct_context ''t'' 4000 True two_tier_world = Inr ctx \<and>
          layers ctx =
            [\<lparr>layer_type = ''identity'', layer_content = content identity_packet, tokens = 3\<rparr>,
             \<lparr>layer_type = ''session'', layer_content = content session_packet, tokens = 3\<rparr>]) \<and>
   PacketPriority_value (priority identity_packet) = 4 \<and>
   PacketPriority_value (priority session_packet) = 3"
  by (simp add: reconstruct_negative_budget reconstruct_two_tier two_tier_world_handler
      identity_packet_def session_packet_def)

end
